theory Spec2Isabelle
  imports Complex_Main "HOL-Library.AList" "HOL-Library.Multiset" "HOL-Library.Product_Lexorder"
begin

section \<open>Aphelios damage simulation (Damage.py)\<close>

text \<open>
  A shallow embedding of \<^verbatim>\<open>Damage.py\<close>. Python floats are modelled as exact reals, so
  the results below are about the arithmetic the program writes down, not about the
  rounding of IEEE doubles. Python dictionaries that are only looked up by key are maps;
  dictionaries that the program iterates over are association lists in insertion order.
  Exceptions are values of the type \<open>error\<close>.
\<close>

subsection \<open>Constants\<close>

definition BASE_AD_LEVEL18 :: real where "BASE_AD_LEVEL18 = 94.1"
definition BASE_AS :: real where "BASE_AS = 0.64"
definition DEFAULT_CRIT_DAMAGE :: real where "DEFAULT_CRIT_DAMAGE = 1.75"
definition BASE_HEALTH :: real where "BASE_HEALTH = 2334"
definition BASE_MANA :: real where "BASE_MANA = 1062"
definition BASE_ARMOR :: real where "BASE_ARMOR = 97.4"
definition BASE_MR :: real where "BASE_MR = 52.1"
definition BASE_MOVE_SPEED :: real where "BASE_MOVE_SPEED = 325"

definition ABILITY_CAST_TIME :: real where "ABILITY_CAST_TIME = 0.5"
definition ABILITY_COOLDOWN :: real where "ABILITY_COOLDOWN = 3.0"

subsection \<open>Physical damage mitigation\<close>

text \<open>
  \<^verbatim>\<open>apply_physical_mitigation(damage, enemy_armor, armor_pen=0.0, lethality=0.0)\<close>:
  the two \<^verbatim>\<open>max(0, ...)\<close> floors come before the test \<^verbatim>\<open>final_armor >= 0\<close>.
\<close>

definition apply_physical_mitigation :: "real \<Rightarrow> real \<Rightarrow> real \<Rightarrow> real \<Rightarrow> real" where
  "apply_physical_mitigation damage enemy_armor armor_pen lethality =
     (let flat_pen = lethality * (0.6 + 0.4);
          armor_after_flat = max 0 (enemy_armor - flat_pen);
          final_armor = max 0 (armor_after_flat * (1 - armor_pen));
          multiplier = (if final_armor \<ge> 0 then 100 / (100 + final_armor)
                        else 2 - 100 / (100 - final_armor))
      in damage * multiplier)"

text \<open>The armor that is left after both penetration steps, as the function computes it.\<close>

definition final_armor_of :: "real \<Rightarrow> real \<Rightarrow> real \<Rightarrow> real" where
  "final_armor_of enemy_armor armor_pen lethality =
     max 0 (max 0 (enemy_armor - lethality * (0.6 + 0.4)) * (1 - armor_pen))"

subsection \<open>Python values and exceptions\<close>

datatype error = KeyError string | IndexError | ValueError | TypeError | ZeroDivisionError

text \<open>
  The values an item dictionary holds: numbers, flags, the item's name and tuples.
  A string stands for text that is not a numeric literal, as the names of the catalog are.
\<close>

datatype pyval = Num real | Bool bool | Str string | Tup "pyval list"

type_synonym item = "(string \<times> pyval) list"

type_synonym stat_map = "string \<rightharpoonup> real"

definition bind_err :: "error + 'a \<Rightarrow> ('a \<Rightarrow> error + 'b) \<Rightarrow> error + 'b" where
  "bind_err m f = (case m of Inl e \<Rightarrow> Inl e | Inr x \<Rightarrow> f x)"

text \<open>\<^verbatim>\<open>d[k]\<close> raises KeyError on a missing key; \<^verbatim>\<open>d.get(k, default)\<close> does not.\<close>

definition dict_get :: "(string \<rightharpoonup> 'a) \<Rightarrow> string \<Rightarrow> error + 'a" where
  "dict_get d k = (case d k of None \<Rightarrow> Inl (KeyError k) | Some v \<Rightarrow> Inr v)"

definition dict_get_default :: "(string \<rightharpoonup> 'a) \<Rightarrow> string \<Rightarrow> 'a \<Rightarrow> 'a" where
  "dict_get_default d k dflt = (case d k of None \<Rightarrow> dflt | Some v \<Rightarrow> v)"

text \<open>
  \<^verbatim>\<open>float(value)\<close>: a bool is an int in Python, so it converts to 1.0 or 0.0; text raises
  ValueError and a tuple raises TypeError.
\<close>

fun py_float :: "pyval \<Rightarrow> error + real" where
  "py_float (Num r) = Inr r"
| "py_float (Bool b) = Inr (if b then 1 else 0)"
| "py_float (Str s) = Inl ValueError"
| "py_float (Tup vs) = Inl TypeError"

text \<open>\<^verbatim>\<open>sum(float(v) for v in value)\<close>, left to right from 0, stopping at the first raise.\<close>

fun float_sum :: "real \<Rightarrow> pyval list \<Rightarrow> error + real" where
  "float_sum acc [] = Inr acc"
| "float_sum acc (v # vs) = (case py_float v of Inl e \<Rightarrow> Inl e | Inr r \<Rightarrow> float_sum (acc + r) vs)"

text \<open>A \<^verbatim>\<open>for\<close> loop whose body may raise: the first exception ends the loop.\<close>

fun fold_err :: "('b \<Rightarrow> 'a \<Rightarrow> error + 'b) \<Rightarrow> 'a list \<Rightarrow> 'b \<Rightarrow> error + 'b" where
  "fold_err f [] b = Inr b"
| "fold_err f (x # xs) b = (case f b x of Inl e \<Rightarrow> Inl e | Inr b' \<Rightarrow> fold_err f xs b')"

subsection \<open>The item catalog\<close>

definition ITEMS :: "(string \<times> item) list" where
  "ITEMS =
    [(''Muramana'',
       [(''AD'', Num 49.29), (''Ability Haste'', Num 31), (''Mana'', Num 860),
        (''name'', Str ''Muramana'')]),
     (''Axiom Arc'',
       [(''AD'', Num 55), (''Ability Haste'', Num 20), (''Lethality'', Num 18),
        (''UltimateRefund'', Num 0.15), (''name'', Str ''Axiom Arc'')]),
     (''Black Cleaver'',
       [(''AD'', Num 40), (''Ability Haste'', Num 20), (''Health'', Num 400),
        (''ArmorPen'', Num 0.3), (''name'', Str ''Black Cleaver'')]),
     (''Blade of the Ruined King'',
       [(''AD'', Num 40), (''Attack Speed'', Num 0.25), (''Lifesteal'', Num 0.1),
        (''OnHitCurrentHealth'', Num 0.08), (''name'', Str ''Blade of the Ruined King'')]),
     (''Bloodthirster'',
       [(''AD'', Num 80), (''Lifesteal'', Num 0.15), (''Shield'', Tup [Num 165, Num 315]),
        (''name'', Str ''Bloodthirster'')]),
     (''Death's Dance'',
       [(''AD'', Num 60), (''Ability Haste'', Num 15), (''Armor'', Num 50),
        (''DamageReduction'', Num 0.3), (''name'', Str ''Death's Dance'')]),
     (''Eclipse'',
       [(''AD'', Num 60), (''Ability Haste'', Num 15), (''MaxHealthDamage'', Num 0.06),
        (''Shield'', Tup [Num 160, Num 80]), (''name'', Str ''Eclipse'')]),
     (''Essence Reaver'',
       [(''AD'', Num 60), (''Ability Haste'', Num 15), (''Crit Chance'', Num 0.25),
        (''ManaRestore'', Num 15), (''name'', Str ''Essence Reaver'')]),
     (''Guinsoo's Rageblade'',
       [(''AD'', Num 30), (''Ability Power'', Num 30), (''Attack Speed'', Num 0.25),
        (''OnHitMagicDamage'', Num 30), (''name'', Str ''Guinsoo's Rageblade'')]),
     (''Hubris'',
       [(''AD'', Num 60), (''Ability Haste'', Num 10), (''Lethality'', Num 18),
        (''BonusADPerStack'', Num 15), (''name'', Str ''Hubris'')]),
     (''Hullbreaker'',
       [(''AD'', Num 40), (''Health'', Num 500), (''MoveSpeed'', Num 0.04),
        (''BonusArmorMR'', Tup [Num 70, Num 130]), (''name'', Str ''Hullbreaker'')]),
     (''Immortal Shieldbow'',
       [(''AD'', Num 55), (''Crit Chance'', Num 0.25), (''Shield'', Tup [Num 400, Num 700]),
        (''Lifesteal'', Num 0.07), (''name'', Str ''Immortal Shieldbow'')]),
     (''Infinity Edge'',
       [(''AD'', Num 70), (''Crit Chance'', Num 0.25), (''Crit Damage'', Num 0.4),
        (''name'', Str ''Infinity Edge'')]),
     (''Kraken Slayer'',
       [(''AD'', Num 45), (''Attack Speed'', Num 0.4), (''MoveSpeed'', Num 0.04),
        (''BonusPhysicalDamage'', Tup [Num 150, Num 200]), (''name'', Str ''Kraken Slayer'')]),
     (''Lord Dominik's Regards'',
       [(''AD'', Num 35), (''ArmorPen'', Num 0.4), (''Crit Chance'', Num 0.25),
        (''name'', Str ''Lord Dominik's Regards'')]),
     (''Maw of Malmortius'',
       [(''AD'', Num 60), (''Ability Haste'', Num 15), (''MR'', Num 40),
        (''Shield'', Tup [Num 200, Num 150]), (''Omnivamp'', Num 0.1),
        (''name'', Str ''Maw of Malmortius'')]),
     (''Mercurial Scimitar'',
       [(''AD'', Num 40), (''MR'', Num 40), (''Lifesteal'', Num 0.1),
        (''name'', Str ''Mercurial Scimitar'')]),
     (''Mortal Reminder'',
       [(''AD'', Num 35), (''Armor Pen'', Num 0.35), (''Crit Chance'', Num 0.25),
        (''GrievousWounds'', Bool True), (''name'', Str ''Mortal Reminder'')]),
     (''Nashor's Tooth'',
       [(''Ability Power'', Num 80), (''Ability Haste'', Num 15), (''Attack Speed'', Num 0.5),
        (''OnHitMagicDamage'', Num 15), (''name'', Str ''Nashor's Tooth'')]),
     (''Navori Flickerblade'',
       [(''Attack Speed'', Num 0.4), (''Crit Chance'', Num 0.25), (''MoveSpeed'', Num 0.04),
        (''CooldownReduction'', Num 0.15), (''name'', Str ''Navori Flickerblade'')]),
     (''Opportunity'',
       [(''AD'', Num 55), (''Lethality'', Num 15),
        (''MoveSpeedOutOfCombat'', Tup [Num 11, Num 7]), (''name'', Str ''Opportunity'')]),
     (''Phantom Dancer'',
       [(''Attack Speed'', Num 0.6), (''Crit Chance'', Num 0.25), (''MoveSpeed'', Num 0.08),
        (''name'', Str ''Phantom Dancer'')]),
     (''Rapid Firecannon'',
       [(''Attack Speed'', Num 0.35), (''Crit Chance'', Num 0.25), (''MoveSpeed'', Num 0.04),
        (''name'', Str ''Rapid Firecannon'')]),
     (''Ravenous Hydra'',
       [(''AD'', Num 65), (''Ability Haste'', Num 15), (''Lifesteal'', Num 0.12),
        (''Cleave'', Num 0.4), (''name'', Str ''Ravenous Hydra'')]),
     (''Runaan's Hurricane'',
       [(''Attack Speed'', Num 0.4), (''Crit Chance'', Num 0.25), (''MoveSpeed'', Num 0.04),
        (''name'', Str ''Runaan's Hurricane'')]),
     (''Serpent's Fang'',
       [(''AD'', Num 55), (''Lethality'', Num 15), (''ShieldReduction'', Num 0.5),
        (''name'', Str ''Serpent's Fang'')]),
     (''Serylda's Grudge'',
       [(''AD'', Num 45), (''Ability Haste'', Num 20), (''ArmorPen'', Num 0.3),
        (''Slow'', Num 0.3), (''name'', Str ''Serylda's Grudge'')]),
     (''Statikk Shiv'',
       [(''AD'', Num 45), (''Attack Speed'', Num 0.3), (''MoveSpeed'', Num 0.04),
        (''MagicDamage'', Num 60), (''name'', Str ''Statikk Shiv'')]),
     (''Sterak's Gage'',
       [(''Health'', Num 400), (''Tenacity'', Num 0.2), (''BonusAD'', Num 0.45),
        (''name'', Str ''Sterak's Gage'')]),
     (''Sundered Sky'',
       [(''AD'', Num 40), (''Ability Haste'', Num 10), (''Health'', Num 400),
        (''CritDamage'', Num 1.75), (''HealMissingHealth'', Num 0.06),
        (''name'', Str ''Sundered Sky'')]),
     (''Terminus'',
       [(''AD'', Num 30), (''Attack Speed'', Num 0.35), (''OnHitMagicDamage'', Num 30),
        (''ArmorMRPerStack'', Tup [Num 6, Num 7, Num 8]),
        (''ArmorPenMagicPenPerStack'', Num 0.1), (''name'', Str ''Terminus'')]),
     (''The Collector'',
       [(''AD'', Num 50), (''Lethality'', Num 10), (''Crit Chance'', Num 0.25),
        (''Execute'', Num 0.05), (''name'', Str ''The Collector'')]),
     (''Trinity Force'',
       [(''AD'', Num 36), (''Ability Haste'', Num 15), (''Attack Speed'', Num 0.3),
        (''Health'', Num 333), (''SpellbladeDamage'', Num 2),
        (''name'', Str ''Trinity Force'')]),
     (''Voltaic Cyclosword'',
       [(''AD'', Num 55), (''Ability Haste'', Num 10), (''Lethality'', Num 18),
        (''Slow'', Num 0.99), (''BonusPhysicalDamage'', Num 100),
        (''name'', Str ''Voltaic Cyclosword'')]),
     (''Wit's End'',
       [(''MR'', Num 45), (''Attack Speed'', Num 0.5), (''Tenacity'', Num 0.2),
        (''OnHitMagicDamage'', Num 45), (''name'', Str ''Wit's End'')]),
     (''Youmuu's Ghostblade'',
       [(''AD'', Num 55), (''Lethality'', Num 18),
        (''MoveSpeedOutOfCombat'', Tup [Num 20, Num 10]),
        (''name'', Str ''Youmuu's Ghostblade'')])]"

subsection \<open>Stat aggregation: \<^verbatim>\<open>_calculate_base_stats\<close>\<close>

definition initial_stats :: stat_map where
  "initial_stats = map_of
     [(''AD'', BASE_AD_LEVEL18),
      (''AS'', BASE_AS),
      (''Crit'', 0.0),
      (''CritDmg'', DEFAULT_CRIT_DAMAGE),
      (''Lethality'', 0.0),
      (''ArmorPen'', 0.0),
      (''MagicPen'', 0.0),
      (''OnHit'', 0.0),
      (''LS'', 0.0),
      (''Omnivamp'', 0.0),
      (''BonusAD'', 0.0),
      (''AbilityHaste'', 0.0),
      (''Bonus Range'', 0.0),
      (''Health'', BASE_HEALTH),
      (''Armor'', BASE_ARMOR),
      (''MR'', BASE_MR),
      (''Mana'', BASE_MANA),
      (''MoveSpeed'', BASE_MOVE_SPEED)]"

text \<open>The three local variables of the aggregation loop.\<close>

record aggregation =
  acc_stats :: stat_map
  has_infinity_edge :: bool
  bonus_ad :: real

text \<open>
  One pass of the inner loop \<^verbatim>\<open>for stat, value in item.items()\<close>. The branches for
  \<^verbatim>\<open>name\<close>, \<^verbatim>\<open>Crit Chance\<close>, \<^verbatim>\<open>AD\<close> and \<^verbatim>\<open>Lethality\<close> end in \<^verbatim>\<open>continue\<close>; the branch for the two
  armor-penetration spellings does not, so control falls through to the type dispatch.
  In \<^verbatim>\<open>isinstance(value, (int, float))\<close> a bool counts as an int, so the later
  \<^verbatim>\<open>isinstance(value, bool)\<close> branch is never reached.
\<close>

definition add_numeric :: "aggregation \<Rightarrow> string \<Rightarrow> real \<Rightarrow> aggregation" where
  "add_numeric a stat v =
     a\<lparr>acc_stats := (acc_stats a)(stat \<mapsto> dict_get_default (acc_stats a) stat 0.0 + v)\<rparr>"

definition aggregate_stat :: "aggregation \<Rightarrow> string \<times> pyval \<Rightarrow> error + aggregation" where
  "aggregate_stat a entry =
     (let stat = fst entry; value = snd entry in
      if stat = ''name'' then
        Inr (if value = Str ''Infinity Edge'' then a\<lparr>has_infinity_edge := True\<rparr> else a)
      else if stat = ''Crit Chance'' then
        bind_err (dict_get (acc_stats a) ''Crit'') (\<lambda>c.
        bind_err (py_float value) (\<lambda>v.
        Inr (a\<lparr>acc_stats := (acc_stats a)(''Crit'' \<mapsto> c + v)\<rparr>)))
      else if stat = ''AD'' then
        bind_err (py_float value) (\<lambda>v. Inr (a\<lparr>bonus_ad := bonus_ad a + v\<rparr>))
      else
        bind_err
          (if stat \<in> set [''ArmorPen'', ''Armor Pen''] then
             bind_err (dict_get (acc_stats a) ''ArmorPen'') (\<lambda>p.
             bind_err (py_float value) (\<lambda>v.
             Inr (a\<lparr>acc_stats := (acc_stats a)(''ArmorPen'' \<mapsto> max p v)\<rparr>)))
           else Inr a)
          (\<lambda>a.
            if stat = ''Lethality'' then
              bind_err (dict_get (acc_stats a) ''Lethality'') (\<lambda>l.
              bind_err (py_float value) (\<lambda>v.
              Inr (a\<lparr>acc_stats := (acc_stats a)(''Lethality'' \<mapsto> l + v)\<rparr>)))
            else
              (case value of
                 Tup vs \<Rightarrow>
                   (case float_sum 0 vs of
                      Inl e \<Rightarrow> Inr a
                    | Inr sm \<Rightarrow>
                        if length vs = 0 then Inl ZeroDivisionError
                        else Inr (add_numeric a stat (sm / real (length vs))))
               | Num r \<Rightarrow> Inr (add_numeric a stat r)
               | Bool b \<Rightarrow> Inr (add_numeric a stat (if b then 1 else 0))
               | Str s \<Rightarrow> Inr a)))"

definition aggregate_item :: "aggregation \<Rightarrow> item \<Rightarrow> error + aggregation" where
  "aggregate_item a item = fold_err aggregate_stat item a"

text \<open>The statements after the loops.\<close>

definition finalize_stats :: "aggregation \<Rightarrow> error + stat_map" where
  "finalize_stats a =
     (let stats1 = (acc_stats a)(''BonusAD'' \<mapsto> bonus_ad a) in
      bind_err (dict_get stats1 ''AD'') (\<lambda>ad.
      let stats2 = stats1(''AD'' \<mapsto> ad + bonus_ad a) in
      bind_err (dict_get stats2 ''AD'') (\<lambda>ad.
      let stats3 = stats2(''AD'' \<mapsto> ad + 68) in
      bind_err (dict_get stats3 ''Crit'') (\<lambda>crit.
      let stats4 = stats3(''Crit'' \<mapsto> min crit 1.0) in
      if has_infinity_edge a \<and> min crit 1.0 \<ge> 0.6 then
        bind_err (dict_get stats4 ''CritDmg'') (\<lambda>cd. Inr (stats4(''CritDmg'' \<mapsto> cd + 0.4)))
      else Inr stats4))))"

text \<open>
  \<^verbatim>\<open>_calculate_base_stats(self, items_tuple)\<close> reads \<^verbatim>\<open>self.item_stats\<close>, the first argument
  here; the tuple it is called with only serves as the key of the memo of
  \<^verbatim>\<open>functools.lru_cache\<close>. The memo itself is not part of the model: it hands back the
  very dictionary that the simulator later mutates through \<^verbatim>\<open>self.stats\<close>, and the only
  call, in the constructor, is under a key that holds the new instance.
\<close>

definition calculate_base_stats :: "item list \<Rightarrow> string list \<Rightarrow> error + stat_map" where
  "calculate_base_stats item_stats items_tuple =
     bind_err
       (fold_err aggregate_item item_stats
          \<lparr>acc_stats = initial_stats, has_infinity_edge = False, bonus_ad = 0.0\<rparr>)
       finalize_stats"

text \<open>\<^verbatim>\<open>[ITEMS[item] for item in items if item in ITEMS]\<close>\<close>

definition item_stats_of :: "string list \<Rightarrow> item list" where
  "item_stats_of items = List.map_filter (map_of ITEMS) items"

subsection \<open>Weapons\<close>

record MoonstoneWeapon =
  name :: string
  moonlight :: int
  base_damage_mod :: "real \<times> real"
  on_hit_effect :: "(string \<times> pyval) list"
  ability_effect :: "string \<rightharpoonup> real"

definition WEAPONS :: "(string \<times> MoonstoneWeapon) list" where
  "WEAPONS =
    [(''Calibrum'',
       \<lparr>name = ''Calibrum'', moonlight = 50, base_damage_mod = (1.0, 0.2),
        on_hit_effect = [(''range'', Num 650), (''mark'', Bool True)],
        ability_effect = [''execute'' \<mapsto> 0.10]\<rparr>),
     (''Severum'',
       \<lparr>name = ''Severum'', moonlight = 50, base_damage_mod = (0.9, 0.0),
        on_hit_effect = [(''heal'', Num 0.03), (''shield_convert'', Num 0.06)],
        ability_effect = [''lifesteal_boost'' \<mapsto> 0.25]\<rparr>),
     (''Gravitum'',
       \<lparr>name = ''Gravitum'', moonlight = 50, base_damage_mod = (1.1, 0.0),
        on_hit_effect = [(''slow'', Num 0.3)],
        ability_effect = [''root'' \<mapsto> 1.0]\<rparr>),
     (''Infernum'',
       \<lparr>name = ''Infernum'', moonlight = 50, base_damage_mod = (0.85, 0.15),
        on_hit_effect = [(''aoe'', Num 0.75)],
        ability_effect = [''splash'' \<mapsto> 0.4]\<rparr>),
     (''Crescendum'',
       \<lparr>name = ''Crescendum'', moonlight = 50, base_damage_mod = (0.5, 0.02),
        on_hit_effect = [(''chakram_gen'', Num 1)],
        ability_effect = [''chakram_amp'' \<mapsto> 0.1]\<rparr>)]"

subsection \<open>The simulator\<close>

text \<open>
  The fields of \<^verbatim>\<open>ApheliosSimulator\<close>. The two dictionaries \<^verbatim>\<open>crescendum_return_times\<close> and
  \<^verbatim>\<open>active_marks\<close> are created empty and never read or written again; they are left out.
  \<^verbatim>\<open>weapon_ammo\<close> is iterated over (\<^verbatim>\<open>.values()\<close>), so it is an association list.
  \<^verbatim>\<open>active_chakrams\<close> is a Python set: a list without repetitions here.
  The last two fields stand for the global generator of the \<^verbatim>\<open>random\<close> module: the values
  that the calls of \<^verbatim>\<open>random.random()\<close> return, and how many have been drawn.
\<close>

record simulator =
  weapon_queue :: "string list"
  main_hand :: MoonstoneWeapon
  off_hand :: MoonstoneWeapon
  item_names :: "string list"
  item_stats :: "item list"
  stats :: stat_map
  enemy_armor :: real
  enemy_health :: real
  time :: real
  ability_cooldown :: real
  weapon_ammo :: "(string \<times> int) list"
  chakram_stacks :: int
  active_chakrams :: "real list"
  random_values :: "nat \<Rightarrow> real"
  random_drawn :: nat

definition random_random :: "simulator \<Rightarrow> real \<times> simulator" where
  "random_random s = (random_values s (random_drawn s), s\<lparr>random_drawn := random_drawn s + 1\<rparr>)"

text \<open>\<^verbatim>\<open>int(x)\<close> on a float truncates towards zero.\<close>

definition py_int :: "real \<Rightarrow> int" where
  "py_int x = (if 0 \<le> x then \<lfloor>x\<rfloor> else \<lceil>x\<rceil>)"

text \<open>\<^verbatim>\<open>__init__(items, enemy_armor=250.0, enemy_health=3500.0, ...)\<close>\<close>

definition init :: "string list \<Rightarrow> real \<Rightarrow> real \<Rightarrow> (nat \<Rightarrow> real) \<Rightarrow> error + simulator" where
  "init items enemy_armor_arg enemy_health_arg rnd =
     (let queue = [''Calibrum'', ''Severum'', ''Gravitum'', ''Infernum'', ''Crescendum''] in
      bind_err (dict_get (map_of WEAPONS) (queue ! 0)) (\<lambda>mh.
      bind_err (dict_get (map_of WEAPONS) (queue ! 1)) (\<lambda>oh.
      bind_err (calculate_base_stats (item_stats_of items) items) (\<lambda>st.
      Inr \<lparr>weapon_queue = queue, main_hand = mh, off_hand = oh,
           item_names = items, item_stats = item_stats_of items, stats = st,
           enemy_armor = enemy_armor_arg, enemy_health = enemy_health_arg,
           time = 0.0, ability_cooldown = 0.0,
           weapon_ammo = map (\<lambda>w. (fst w, 50)) WEAPONS,
           chakram_stacks = 0, active_chakrams = [],
           random_values = rnd, random_drawn = 0\<rparr>))))"

definition rotate_weapon :: "simulator \<Rightarrow> error + simulator" where
  "rotate_weapon s0 =
     (let s1 = s0\<lparr>time := time s0 + 1.0\<rparr>;
          s2 = s1\<lparr>ability_cooldown := max (ability_cooldown s1) (time s1 + 1.5)\<rparr>
      in case weapon_queue s2 of
           [] \<Rightarrow> Inl IndexError
         | exhausted # rest \<Rightarrow>
             (let queue = rest @ [exhausted] in
              bind_err (dict_get (map_of WEAPONS) (queue ! 0)) (\<lambda>mh.
              if length queue < 2 then Inl IndexError
              else
                bind_err (dict_get (map_of WEAPONS) (queue ! 1)) (\<lambda>oh.
                let s3 = s2\<lparr>weapon_queue := queue, main_hand := mh, off_hand := oh\<rparr> in
                Inr (if exhausted = ''Crescendum''
                     then s3\<lparr>chakram_stacks := py_int (real_of_int (chakram_stacks s3) * 0.7)\<rparr>
                     else s3)))))"

definition use_ammo :: "int \<Rightarrow> simulator \<Rightarrow> error + simulator" where
  "use_ammo amount s0 =
     bind_err (dict_get (map_of (weapon_ammo s0)) (name (main_hand s0))) (\<lambda>ammo.
     let s1 = s0\<lparr>weapon_ammo := AList.update (name (main_hand s0)) (ammo - amount) (weapon_ammo s0)\<rparr> in
     bind_err (dict_get (map_of (weapon_ammo s1)) (name (main_hand s1))) (\<lambda>ammo1.
     if ammo1 \<le> 0 then rotate_weapon s1 else Inr s1))"

text \<open>\<^verbatim>\<open>if self.weapon_ammo[self.main_hand.name] <= 0: self.rotate_weapon()\<close>\<close>

definition rotate_if_empty :: "simulator \<Rightarrow> error + simulator" where
  "rotate_if_empty s =
     bind_err (dict_get (map_of (weapon_ammo s)) (name (main_hand s))) (\<lambda>ammo.
     if ammo \<le> 0 then rotate_weapon s else Inr s)"

text \<open>
  \<^verbatim>\<open>simulate_attack\<close> in two parts: the first two statements, which spend the ammunition,
  and the rest, which computes the damage on the weapons that are then in hand.
\<close>

definition attack_prepare :: "simulator \<Rightarrow> error + simulator" where
  "attack_prepare s = bind_err (rotate_if_empty s) (use_ammo 1)"

definition attack_on_hit :: "simulator \<Rightarrow> real \<Rightarrow> real \<Rightarrow> error + real \<times> simulator" where
  "attack_on_hit s total_ad damage =
     (if name (main_hand s) = ''Calibrum'' then
        (let mark_damage = total_ad * 0.15 in Inr (damage + mark_damage, s))
      else if name (main_hand s) = ''Severum'' then
        bind_err (dict_get (stats s) ''LS'') (\<lambda>ls.
        Inr (damage, s\<lparr>stats := (stats s)(''LS'' \<mapsto> ls + damage * 0.03)\<rparr>))
      else if name (main_hand s) = ''Infernum'' then
        (let splash_damage = total_ad * 0.75 in Inr (damage + splash_damage, s))
      else Inr (damage, s))"

text \<open>
  The chakram statements of the attack. With Crescendum in the main hand the product is
  stored in \<^verbatim>\<open>base_damage\<close>, a variable that is not read afterwards.
\<close>

definition attack_chakrams :: "simulator \<Rightarrow> real \<Rightarrow> simulator" where
  "attack_chakrams s total_ad =
     (if name (main_hand s) = ''Crescendum'' then
        (let base_damage = total_ad * (0.1385 * real_of_int (chakram_stacks s)) in
         s\<lparr>chakram_stacks := max 0 (chakram_stacks s - 3)\<rparr>)
      else if name (off_hand s) = ''Crescendum'' then
        (let (r, s1) = random_random s in
         if r < 0.65 then s1\<lparr>chakram_stacks := min 20 (chakram_stacks s1 + 1)\<rparr> else s1)
      else s)"

definition attack_damage :: "simulator \<Rightarrow> error + real \<times> simulator" where
  "attack_damage s0 =
     (let base_ad = BASE_AD_LEVEL18 in
      bind_err (dict_get (stats s0) ''BonusAD'') (\<lambda>bonus_ad.
      let total_ad = base_ad + bonus_ad + 68;
          attack_speed = min 2.5 (BASE_AS * (1 + dict_get_default (stats s0) ''AS'' 0));
          base_damage = total_ad;
          (r, s1) = random_random s0
      in
      bind_err (dict_get (stats s1) ''Crit'') (\<lambda>crit.
      bind_err (if r < crit
                then bind_err (dict_get (stats s1) ''CritDmg'') (\<lambda>crit_multiplier.
                       Inr (base_damage * crit_multiplier))
                else Inr base_damage) (\<lambda>damage.
      let weapon_modifier = fst (base_damage_mod (main_hand s1)) in
      bind_err (attack_on_hit s1 total_ad (damage * weapon_modifier)) (\<lambda>(damage, s2).
      let s3 = attack_chakrams s2 total_ad;
          effective_damage = apply_physical_mitigation damage (enemy_armor s3)
                               (dict_get_default (stats s3) ''ArmorPen'' 0.0)
                               (dict_get_default (stats s3) ''Lethality'' 0.0)
      in Inr (effective_damage, s3))))))"

definition simulate_attack :: "simulator \<Rightarrow> error + real \<times> simulator" where
  "simulate_attack s = bind_err (attack_prepare s) attack_damage"

text \<open>
  \<^verbatim>\<open>simulate_ability\<close>, again in two parts. The weapon-specific multipliers are looked up
  in the catalog under the name of the main-hand weapon, as the source does.
\<close>

definition ability_prepare :: "simulator \<Rightarrow> error + simulator" where
  "ability_prepare s = bind_err (rotate_if_empty s) (use_ammo 10)"

definition ability_effects_damage :: "simulator \<Rightarrow> real \<Rightarrow> error + real \<times> simulator" where
  "ability_effects_damage s total_ad =
     (let weapon = name (main_hand s) in
      bind_err (dict_get (map_of WEAPONS) weapon) (\<lambda>w.
      let raw_ability_damage = total_ad * snd (base_damage_mod w);
          ability_effects = ability_effect w
      in
      if weapon = ''Calibrum'' then
        (case ability_effects ''execute'' of
           Some x \<Rightarrow> Inr (raw_ability_damage * (1 + x), s)
         | None \<Rightarrow> Inr (raw_ability_damage, s))
      else if weapon = ''Severum'' then
        (case ability_effects ''lifesteal_boost'' of
           Some x \<Rightarrow>
             (let raw1 = raw_ability_damage * (1 + x) in
              bind_err (dict_get (stats s) ''LS'') (\<lambda>ls.
              Inr (raw1, s\<lparr>stats := (stats s)(''LS'' \<mapsto> ls + raw1 * 0.03)\<rparr>)))
         | None \<Rightarrow> Inr (raw_ability_damage, s))
      else if weapon = ''Infernum'' then
        (case ability_effects ''splash'' of
           Some x \<Rightarrow> Inr (raw_ability_damage * (1 + x) * 1.25, s)
         | None \<Rightarrow> Inr (raw_ability_damage, s))
      else Inr (raw_ability_damage, s)))"

text \<open>
  The chakram statements of the ability: \<^verbatim>\<open>self.active_chakrams.add(self.time + 5.0)\<close> under
  the test for Crescendum, then the assignment to \<^verbatim>\<open>self.chakram_stacks\<close>, under no test.
\<close>

definition ability_chakrams :: "simulator \<Rightarrow> simulator" where
  "ability_chakrams s =
     (let s1 = (if name (main_hand s) = ''Crescendum''
                then s\<lparr>active_chakrams := List.insert (time s + 5.0) (active_chakrams s)\<rparr>
                else s)
      in s1\<lparr>chakram_stacks := int (length (filter (\<lambda>t. t > time s1) (active_chakrams s1)))\<rparr>)"

definition ability_damage :: "simulator \<Rightarrow> error + real \<times> simulator" where
  "ability_damage s0 =
     bind_err (dict_get (stats s0) ''BonusAD'') (\<lambda>bonus_ad.
     let total_ad = BASE_AD_LEVEL18 + bonus_ad + 68 in
     bind_err (ability_effects_damage s0 total_ad) (\<lambda>(raw_ability_damage, s1).
     let s2 = ability_chakrams s1;
         effective_damage = apply_physical_mitigation raw_ability_damage (enemy_armor s2)
                              (dict_get_default (stats s2) ''ArmorPen'' 0.0)
                              (dict_get_default (stats s2) ''Lethality'' 0.0)
     in Inr (effective_damage, s2)))"

definition simulate_ability :: "simulator \<Rightarrow> error + real \<times> simulator" where
  "simulate_ability s = bind_err (ability_prepare s) ability_damage"

subsection \<open>\<^verbatim>\<open>calculate_dps\<close>\<close>

text \<open>
  One pass of the body of \<^verbatim>\<open>while self.time < duration\<close>, in the three parts that the
  source lays out: the rotation at the head, the attack with its clock advance, and
  the ability with its clock advance. Each part returns the running total of the damage.
\<close>

definition dps_attack_part :: "real \<Rightarrow> simulator \<Rightarrow> error + real \<times> simulator" where
  "dps_attack_part total_damage s0 =
     (let attack_speed = min 3 (BASE_AS * (1 + dict_get_default (stats s0) ''AS'' 0)) in
      if attack_speed = 0 then Inl ZeroDivisionError
      else
        (let attack_time = 1.0 / attack_speed in
         bind_err (simulate_attack s0) (\<lambda>(damage, s1).
         Inr (total_damage + damage, s1\<lparr>time := time s1 + attack_time\<rparr>))))"

definition ability_ready :: "simulator \<Rightarrow> bool" where
  "ability_ready s \<longleftrightarrow>
     time s - ability_cooldown s \<ge> ABILITY_COOLDOWN \<and> moonlight (main_hand s) \<ge> 10"

definition dps_ability_part :: "real \<Rightarrow> simulator \<Rightarrow> error + real \<times> simulator" where
  "dps_ability_part total_damage s0 =
     (if ability_ready s0 then
        bind_err (simulate_ability s0) (\<lambda>(damage, s1).
        let s2 = s1\<lparr>ability_cooldown := time s1 + ABILITY_CAST_TIME\<rparr> in
        Inr (total_damage + damage, s2\<lparr>time := time s2 + ABILITY_CAST_TIME\<rparr>))
      else Inr (total_damage, s0))"

definition dps_iteration :: "real \<Rightarrow> simulator \<Rightarrow> error + real \<times> simulator" where
  "dps_iteration total_damage s0 =
     bind_err (rotate_if_empty s0) (\<lambda>s1.
     bind_err (dps_attack_part total_damage s1) (\<lambda>(total1, s2).
     dps_ability_part total1 s2))"

text \<open>
  The loop itself. Nothing bounds the number of passes for every state (the clock advance
  \<^verbatim>\<open>1.0 / attack_speed\<close> can be negative), so a run that does not end has the value \<open>None\<close>.
\<close>

partial_function (option) dps_loop ::
  "real \<Rightarrow> real \<Rightarrow> simulator \<Rightarrow> (error + real \<times> simulator) option" where
  "dps_loop duration total_damage s =
     (if time s < duration then
        (case dps_iteration total_damage s of
           Inl e \<Rightarrow> Some (Inl e)
         | Inr r \<Rightarrow> dps_loop duration (fst r) (snd r))
      else Some (Inr (total_damage, s)))"

declare dps_loop.simps [code]

text \<open>\<^verbatim>\<open>all(ammo <= 0 for ammo in self.weapon_ammo.values())\<close>\<close>

definition all_ammo_spent :: "simulator \<Rightarrow> bool" where
  "all_ammo_spent s \<longleftrightarrow> list_all (\<lambda>entry. snd entry \<le> 0) (weapon_ammo s)"

definition dps_finish :: "real \<Rightarrow> real \<times> simulator \<Rightarrow> error + real \<times> simulator" where
  "dps_finish duration r =
     bind_err (if all_ammo_spent (snd r) then rotate_weapon (snd r) else Inr (snd r)) (\<lambda>s.
     Inr (if duration > 0 then fst r / duration else 0, s))"

definition calculate_dps :: "real \<Rightarrow> simulator \<Rightarrow> (error + real \<times> simulator) option" where
  "calculate_dps duration s =
     (case dps_loop duration 0.0 s of
        None \<Rightarrow> None
      | Some (Inl e) \<Rightarrow> Some (Inl e)
      | Some (Inr r) \<Rightarrow> Some (dps_finish duration r))"

subsection \<open>The final ranking of \<^verbatim>\<open>optimize_aphelios_build\<close>\<close>

text \<open>
  A result is the 9-tuple that \<^verbatim>\<open>simulate_build\<close> returns: the combination, the total score,
  the DPS, the synergy and five further ratings. The workers' lists arrive in the order of
  completion, which the program does not control, so they are the argument here; the
  function is the collection loop and the \<^verbatim>\<open>return sorted(all_results, key=lambda x: (-x[1], -x[2]))\<close>.
  Python compares the key tuples lexicographically and its sort is stable, as \<open>sort_key\<close> is.
\<close>

type_synonym scored_result =
  "string list \<times> real \<times> real \<times> real \<times> real \<times> real \<times> real \<times> real \<times> real"

definition result_score :: "scored_result \<Rightarrow> real" where
  "result_score x = fst (snd x)"

definition result_dps :: "scored_result \<Rightarrow> real" where
  "result_dps x = fst (snd (snd x))"

definition ranking_key :: "scored_result \<Rightarrow> real \<times> real" where
  "ranking_key x = (- result_score x, - result_dps x)"

definition optimize_aphelios_build :: "scored_result list list \<Rightarrow> scored_result list" where
  "optimize_aphelios_build completed =
     (let all_results = concat completed in sort_key ranking_key all_results)"

subsection \<open>Runs and the states they pass through\<close>

text \<open>
  The states that a constructor and the operations produce: the queue holds at least two
  catalog weapons, each with an ammunition counter, the two hands are the catalog entries
  of the first two names of the queue, and the snapshot has the entries that the operations
  read with \<^verbatim>\<open>self.stats[...]\<close>.
\<close>

definition well_formed :: "simulator \<Rightarrow> bool" where
  "well_formed s \<longleftrightarrow>
     2 \<le> length (weapon_queue s) \<and>
     set (weapon_queue s) \<subseteq> fst ` set WEAPONS \<and>
     set (weapon_queue s) \<subseteq> fst ` set (weapon_ammo s) \<and>
     map_of WEAPONS (weapon_queue s ! 0) = Some (main_hand s) \<and>
     map_of WEAPONS (weapon_queue s ! 1) = Some (off_hand s) \<and>
     {''BonusAD'', ''Crit'', ''CritDmg'', ''LS''} \<subseteq> dom (stats s)"

text \<open>\<open>n\<close> consecutive calls of \<^verbatim>\<open>simulate_attack\<close>, the damage discarded.\<close>

fun attack_ticks :: "nat \<Rightarrow> simulator \<Rightarrow> error + simulator" where
  "attack_ticks 0 s = Inr s"
| "attack_ticks (Suc n) s = bind_err (simulate_attack s) (\<lambda>r. attack_ticks n (snd r))"

text \<open>
  What one call of \<^verbatim>\<open>simulate_attack\<close> does to the queue and to the counters, written on
  these two alone: a rotation if the weapon in front is spent, one round charged to the
  weapon then in front, and a rotation if that leaves it spent.
\<close>

definition attack_counters ::
  "string list \<times> (string \<times> int) list \<Rightarrow> string list \<times> (string \<times> int) list" where
  "attack_counters qa =
     (let q0 = fst qa; ammo = snd qa;
          q1 = (if the (map_of ammo (hd q0)) \<le> 0 then rotate1 q0 else q0);
          left = the (map_of ammo (hd q1)) - 1;
          ammo1 = AList.update (hd q1) left ammo;
          q2 = (if left \<le> 0 then rotate1 q1 else q1)
      in (q2, ammo1))"

text \<open>
  The states at the head of the loop of \<^verbatim>\<open>calculate_dps(duration)\<close> started in \<open>s0\<close>, each
  with the damage accumulated so far.
\<close>

inductive loop_head :: "real \<Rightarrow> simulator \<Rightarrow> real \<times> simulator \<Rightarrow> bool"
  for duration :: real and s0 :: simulator where
  loop_start: "loop_head duration s0 (0, s0)"
| loop_pass: "loop_head duration s0 (total_damage, s) \<Longrightarrow> time s < duration \<Longrightarrow>
     dps_iteration total_damage s = Inr r \<Longrightarrow> loop_head duration s0 r"

text \<open>
  The states that a run of \<^verbatim>\<open>calculate_dps(duration)\<close> from \<open>s0\<close> passes through, taken after
  every call of an operation: at the head of the loop, after the rotation at the head,
  inside and after the attack, after the clock advance, inside and after the ability,
  and after the statements that follow the loop.
\<close>

inductive observed :: "real \<Rightarrow> simulator \<Rightarrow> simulator \<Rightarrow> bool"
  for duration :: real and s0 :: simulator where
  at_head: "loop_head duration s0 (total_damage, s) \<Longrightarrow> observed duration s0 s"
| after_head_rotation: "loop_head duration s0 (total_damage, s) \<Longrightarrow> time s < duration \<Longrightarrow>
     rotate_if_empty s = Inr s1 \<Longrightarrow> observed duration s0 s1"
| in_attack: "loop_head duration s0 (total_damage, s) \<Longrightarrow> time s < duration \<Longrightarrow>
     rotate_if_empty s = Inr s1 \<Longrightarrow> attack_prepare s1 = Inr s2 \<Longrightarrow> observed duration s0 s2"
| after_attack: "loop_head duration s0 (total_damage, s) \<Longrightarrow> time s < duration \<Longrightarrow>
     rotate_if_empty s = Inr s1 \<Longrightarrow> simulate_attack s1 = Inr (damage, s2) \<Longrightarrow>
     observed duration s0 s2"
| after_attack_clock: "loop_head duration s0 (total_damage, s) \<Longrightarrow> time s < duration \<Longrightarrow>
     rotate_if_empty s = Inr s1 \<Longrightarrow> dps_attack_part total_damage s1 = Inr (total1, s2) \<Longrightarrow>
     observed duration s0 s2"
| in_ability: "loop_head duration s0 (total_damage, s) \<Longrightarrow> time s < duration \<Longrightarrow>
     rotate_if_empty s = Inr s1 \<Longrightarrow> dps_attack_part total_damage s1 = Inr (total1, s2) \<Longrightarrow>
     ability_ready s2 \<Longrightarrow> ability_prepare s2 = Inr s3 \<Longrightarrow> observed duration s0 s3"
| after_ability: "loop_head duration s0 (total_damage, s) \<Longrightarrow> time s < duration \<Longrightarrow>
     rotate_if_empty s = Inr s1 \<Longrightarrow> dps_attack_part total_damage s1 = Inr (total1, s2) \<Longrightarrow>
     ability_ready s2 \<Longrightarrow> simulate_ability s2 = Inr (damage, s3) \<Longrightarrow> observed duration s0 s3"
| at_return: "loop_head duration s0 (total_damage, s) \<Longrightarrow> \<not> time s < duration \<Longrightarrow>
     dps_finish duration (total_damage, s) = Inr (dps, s1) \<Longrightarrow> observed duration s0 s1"

text \<open>
  Two relations between a state and a later one. The first collects what rotations leave
  alone or move in one direction only; the second says that the ammunition counters are
  those of the same weapons, in the same order, and that none has grown.
\<close>

definition drift :: "simulator \<Rightarrow> simulator \<Rightarrow> bool" where
  "drift s s' \<longleftrightarrow>
     stats s' = stats s \<and> active_chakrams s' = active_chakrams s \<and>
     enemy_armor s' = enemy_armor s \<and>
     random_values s' = random_values s \<and> random_drawn s' = random_drawn s \<and>
     time s \<le> time s' \<and> ability_cooldown s \<le> ability_cooldown s' \<and>
     (0 \<le> chakram_stacks s \<and> chakram_stacks s \<le> 20 \<longrightarrow>
        0 \<le> chakram_stacks s' \<and> chakram_stacks s' \<le> 20)"

definition ammo_not_raised :: "simulator \<Rightarrow> simulator \<Rightarrow> bool" where
  "ammo_not_raised s s' \<longleftrightarrow>
     map fst (weapon_ammo s') = map fst (weapon_ammo s) \<and>
     list_all2 (\<lambda>old new. snd new \<le> snd old) (weapon_ammo s) (weapon_ammo s')"


subsection \<open>Example states\<close>

text \<open>
  The simulator that \<^verbatim>\<open>ApheliosSimulator([])\<close> constructs, with every draw of the generator
  equal to 0.5, and the same simulator later in a run: with the queue rotated, with the
  given counters and chakram count, and with the clock and the cooldown at the given time.
\<close>

definition fresh_simulator :: simulator where
  "fresh_simulator = projr (init [] 250.0 3500.0 (\<lambda>n. 0.5))"

definition mid_run_state :: "string list \<Rightarrow> (string \<times> int) list \<Rightarrow> int \<Rightarrow> real \<Rightarrow> simulator" where
  "mid_run_state queue ammo stacks now =
     fresh_simulator\<lparr>weapon_queue := queue,
                     main_hand := the (map_of WEAPONS (queue ! 0)),
                     off_hand := the (map_of WEAPONS (queue ! 1)),
                     weapon_ammo := ammo, chakram_stacks := stacks,
                     time := now, ability_cooldown := now\<rparr>"

subsection \<open>The aggregation as a list of effects\<close>






definition forget_armor_pen :: "aggregation \<Rightarrow> aggregation" where
  "forget_armor_pen a = a\<lparr>acc_stats := (acc_stats a)(''ArmorPen'' := None)\<rparr>"

section \<open>Basic facts about the embedding\<close>

lemmas constant_defs =
  BASE_AD_LEVEL18_def BASE_AS_def DEFAULT_CRIT_DAMAGE_def BASE_HEALTH_def BASE_MANA_def
  BASE_ARMOR_def BASE_MR_def BASE_MOVE_SPEED_def ABILITY_CAST_TIME_def ABILITY_COOLDOWN_def

lemma bind_err_simps [simp]:
  "bind_err (Inl e) f = Inl e"
  "bind_err (Inr x) f = f x"
  by (simp_all add: bind_err_def)

lemma bind_err_eq_Inr: "bind_err m f = Inr y \<longleftrightarrow> (\<exists>x. m = Inr x \<and> f x = Inr y)"
  by (cases m) simp_all

lemma dict_get_eq_Inr: "dict_get d k = Inr v \<longleftrightarrow> d k = Some v"
  by (simp add: dict_get_def split: option.splits)

lemma dict_get_Some: "d k = Some v \<Longrightarrow> dict_get d k = Inr v"
  by (simp add: dict_get_def)

section \<open>Rotation and ammunition\<close>

lemma WEAPONS_lookup: "map_of WEAPONS n = Some w \<Longrightarrow> name w = n \<and> moonlight w = 50"
  by (auto simp: WEAPONS_def split: if_splits)

lemma WEAPONS_defined: "n \<in> fst ` set WEAPONS \<Longrightarrow> \<exists>w. map_of WEAPONS n = Some w"
  by (metis domD dom_map_of_conv_image_fst)

lemma py_int_decay:
  assumes "0 \<le> k"
  shows "0 \<le> py_int (real_of_int k * 0.7) \<and> py_int (real_of_int k * 0.7) \<le> k"
proof -
  have nonneg: "0 \<le> real_of_int k * 0.7" using assms by simp
  have "real_of_int k * 0.7 \<le> real_of_int k" using assms by simp
  then have "\<lfloor>real_of_int k * 0.7\<rfloor> \<le> k" by (simp add: floor_le_iff)
  moreover have "0 \<le> \<lfloor>real_of_int k * 0.7\<rfloor>" using nonneg by simp
  ultimately show ?thesis using nonneg by (simp add: py_int_def)
qed

lemma drift_refl: "drift s s"
  by (simp add: drift_def)

lemma drift_trans: "drift s t \<Longrightarrow> drift t u \<Longrightarrow> drift s u"
  by (auto simp: drift_def)

lemma ammo_not_raised_refl: "ammo_not_raised s s"
  by (simp add: ammo_not_raised_def list_all2_same)

lemma ammo_not_raised_trans:
  "ammo_not_raised s t \<Longrightarrow> ammo_not_raised t u \<Longrightarrow> ammo_not_raised s u"
proof -
  assume a: "ammo_not_raised s t" and b: "ammo_not_raised t u"
  have "list_all2 (\<lambda>old new. snd new \<le> snd old) (weapon_ammo s) (weapon_ammo u)"
  proof (rule list_all2_trans)
    show "list_all2 (\<lambda>old new. snd new \<le> snd old) (weapon_ammo s) (weapon_ammo t)"
      using a by (simp add: ammo_not_raised_def)
    show "list_all2 (\<lambda>old new. snd new \<le> snd old) (weapon_ammo t) (weapon_ammo u)"
      using b by (simp add: ammo_not_raised_def)
  qed auto
  then show ?thesis using a b by (simp add: ammo_not_raised_def)
qed

lemma rotate_weapon_effect:
  assumes "rotate_weapon s = Inr s'"
  shows "weapon_ammo s' = weapon_ammo s"
    and "weapon_queue s' = rotate1 (weapon_queue s)"
    and "2 \<le> length (weapon_queue s)"
    and "map_of WEAPONS (weapon_queue s' ! 0) = Some (main_hand s')"
    and "map_of WEAPONS (weapon_queue s' ! 1) = Some (off_hand s')"
    and "stats s' = stats s"
    and "active_chakrams s' = active_chakrams s"
    and "time s' = time s + 1"
    and "ability_cooldown s' = max (ability_cooldown s) (time s + 1 + 1.5)"
    and "chakram_stacks s' = chakram_stacks s
         \<or> chakram_stacks s' = py_int (real_of_int (chakram_stacks s) * 0.7)"
    and "enemy_armor s' = enemy_armor s"
    and "random_values s' = random_values s"
    and "random_drawn s' = random_drawn s"
  using assms
  by (auto simp: rotate_weapon_def Let_def bind_err_eq_Inr dict_get_eq_Inr Suc_le_eq
           split: list.splits if_splits)

lemma rotate_weapon_drift:
  assumes "rotate_weapon s = Inr s'"
  shows "drift s s'"
proof -
  note e = rotate_weapon_effect [OF assms]
  have "0 \<le> chakram_stacks s \<and> chakram_stacks s \<le> 20 \<longrightarrow>
        0 \<le> chakram_stacks s' \<and> chakram_stacks s' \<le> 20"
    using e(10) py_int_decay [of "chakram_stacks s"] by auto
  then show ?thesis
    using e by (simp add: drift_def)
qed

lemma rotate_weapon_total:
  assumes "2 \<le> length (weapon_queue s)" and "set (weapon_queue s) \<subseteq> fst ` set WEAPONS"
  shows "\<exists>s'. rotate_weapon s = Inr s'"
proof -
  obtain exhausted rest where q: "weapon_queue s = exhausted # rest"
    using assms(1) by (cases "weapon_queue s") auto
  let ?queue = "rest @ [exhausted]"
  have len: "2 \<le> length ?queue" using assms(1) q by simp
  have "?queue ! 0 \<in> set ?queue" "?queue ! 1 \<in> set ?queue"
    using len by (auto intro!: nth_mem simp del: set_append)
  then have "?queue ! 0 \<in> fst ` set WEAPONS" "?queue ! 1 \<in> fst ` set WEAPONS"
    using assms(2) q by auto
  then obtain mh oh where "map_of WEAPONS (?queue ! 0) = Some mh" "map_of WEAPONS (?queue ! 1) = Some oh"
    using WEAPONS_defined by blast
  then show ?thesis
    using q len by (auto simp: rotate_weapon_def Let_def dict_get_def)
qed

lemma rotate_weapon_well_formed:
  assumes "well_formed s" and "rotate_weapon s = Inr s'"
  shows "well_formed s'"
proof -
  note e = rotate_weapon_effect [OF assms(2)]
  have "set (weapon_queue s') = set (weapon_queue s)" "length (weapon_queue s') = length (weapon_queue s)"
    using e(2) by simp_all
  then show ?thesis
    using assms(1) e by (simp add: well_formed_def)
qed

lemma well_formed_rotate:
  assumes "well_formed s"
  shows "\<exists>s'. rotate_weapon s = Inr s' \<and> well_formed s'"
  using assms rotate_weapon_total [of s] rotate_weapon_well_formed [of s]
  by (auto simp: well_formed_def)

lemma well_formed_main:
  assumes "well_formed s"
  shows "name (main_hand s) = weapon_queue s ! 0"
    and "name (main_hand s) = hd (weapon_queue s)"
    and "\<exists>a. map_of (weapon_ammo s) (name (main_hand s)) = Some a"
proof -
  show n: "name (main_hand s) = weapon_queue s ! 0"
    using assms WEAPONS_lookup by (auto simp: well_formed_def)
  have ne: "weapon_queue s \<noteq> []" using assms by (auto simp: well_formed_def)
  then show "name (main_hand s) = hd (weapon_queue s)"
    using n by (simp add: hd_conv_nth)
  have "weapon_queue s ! 0 \<in> set (weapon_queue s)"
    using ne by simp
  then have "name (main_hand s) \<in> fst ` set (weapon_ammo s)"
    using assms n by (auto simp: well_formed_def)
  then show "\<exists>a. map_of (weapon_ammo s) (name (main_hand s)) = Some a"
    by (metis domD dom_map_of_conv_image_fst)
qed

lemma rotate_if_empty_cases:
  assumes "rotate_if_empty s = Inr s'"
  shows "s' = s \<or> rotate_weapon s = Inr s'"
  using assms by (auto simp: rotate_if_empty_def bind_err_eq_Inr split: if_splits)

lemma rotate_if_empty_drift:
  assumes "rotate_if_empty s = Inr s'"
  shows "drift s s'" and "weapon_ammo s' = weapon_ammo s"
  using rotate_if_empty_cases [OF assms] rotate_weapon_drift rotate_weapon_effect(1) drift_refl
  by auto

lemma rotate_if_empty_well_formed:
  assumes "well_formed s"
  shows "\<exists>s'. rotate_if_empty s = Inr s' \<and> well_formed s'"
proof -
  obtain a where a: "map_of (weapon_ammo s) (name (main_hand s)) = Some a"
    using well_formed_main(3) [OF assms] by blast
  show ?thesis
    using a assms well_formed_rotate [OF assms]
    by (auto simp: rotate_if_empty_def dict_get_def)
qed

lemma rotate_if_empty_preserves_well_formed:
  assumes "well_formed s" and "rotate_if_empty s = Inr s'"
  shows "well_formed s'"
  using rotate_if_empty_cases [OF assms(2)] assms(1) rotate_weapon_well_formed by auto

lemma update_not_raised:
  fixes al :: "(string \<times> int) list"
  assumes "map_of al k = Some a" and "v \<le> a"
  shows "map fst (AList.update k v al) = map fst al
         \<and> list_all2 (\<lambda>old new. snd new \<le> snd old) al (AList.update k v al)"
  using assms
  by (induction al) (auto simp: list_all2_same split: if_splits)

lemma use_ammo_cases:
  assumes "use_ammo n s = Inr s'"
  shows "\<exists>a. map_of (weapon_ammo s) (name (main_hand s)) = Some a
           \<and> (s' = s\<lparr>weapon_ammo := AList.update (name (main_hand s)) (a - n) (weapon_ammo s)\<rparr>
              \<or> rotate_weapon (s\<lparr>weapon_ammo := AList.update (name (main_hand s)) (a - n) (weapon_ammo s)\<rparr>)
                  = Inr s')"
  using assms
  by (auto simp: use_ammo_def Let_def bind_err_eq_Inr dict_get_eq_Inr split: if_splits)

lemma use_ammo_drift:
  assumes "use_ammo n s = Inr s'"
  shows "drift s s'"
proof -
  obtain a where
    c: "s' = s\<lparr>weapon_ammo := AList.update (name (main_hand s)) (a - n) (weapon_ammo s)\<rparr>
        \<or> rotate_weapon (s\<lparr>weapon_ammo := AList.update (name (main_hand s)) (a - n) (weapon_ammo s)\<rparr>)
             = Inr s'"
    using use_ammo_cases [OF assms] by blast
  let ?s1 = "s\<lparr>weapon_ammo := AList.update (name (main_hand s)) (a - n) (weapon_ammo s)\<rparr>"
  have d1: "drift s ?s1" by (simp add: drift_def)
  from c show ?thesis
  proof
    assume "s' = ?s1" then show ?thesis using d1 by simp
  next
    assume "rotate_weapon ?s1 = Inr s'"
    then have "drift ?s1 s'" by (rule rotate_weapon_drift)
    with d1 show ?thesis by (rule drift_trans)
  qed
qed

lemma use_ammo_not_raised:
  assumes "use_ammo n s = Inr s'" and "0 \<le> n"
  shows "ammo_not_raised s s'"
proof -
  obtain a where a: "map_of (weapon_ammo s) (name (main_hand s)) = Some a" and
    c: "s' = s\<lparr>weapon_ammo := AList.update (name (main_hand s)) (a - n) (weapon_ammo s)\<rparr>
        \<or> rotate_weapon (s\<lparr>weapon_ammo := AList.update (name (main_hand s)) (a - n) (weapon_ammo s)\<rparr>)
             = Inr s'"
    using use_ammo_cases [OF assms(1)] by blast
  let ?s1 = "s\<lparr>weapon_ammo := AList.update (name (main_hand s)) (a - n) (weapon_ammo s)\<rparr>"
  have "weapon_ammo s' = weapon_ammo ?s1"
    using c rotate_weapon_effect(1) by auto
  then show ?thesis
    using update_not_raised [OF a, of "a - n"] assms(2) by (simp add: ammo_not_raised_def)
qed

lemma use_ammo_charges_main:
  assumes "use_ammo n s = Inr s'"
  shows "\<exists>a. map_of (weapon_ammo s) (name (main_hand s)) = Some a
           \<and> weapon_ammo s' = AList.update (name (main_hand s)) (a - n) (weapon_ammo s)"
proof -
  obtain a where a: "map_of (weapon_ammo s) (name (main_hand s)) = Some a" and
    c: "s' = s\<lparr>weapon_ammo := AList.update (name (main_hand s)) (a - n) (weapon_ammo s)\<rparr>
        \<or> rotate_weapon (s\<lparr>weapon_ammo := AList.update (name (main_hand s)) (a - n) (weapon_ammo s)\<rparr>)
             = Inr s'"
    using use_ammo_cases [OF assms(1)] by blast
  let ?s1 = "s\<lparr>weapon_ammo := AList.update (name (main_hand s)) (a - n) (weapon_ammo s)\<rparr>"
  have "weapon_ammo s' = weapon_ammo ?s1"
    using c rotate_weapon_effect(1) by auto
  then show ?thesis using a by auto
qed

lemma well_formed_ammo_update:
  assumes "well_formed s"
  shows "well_formed (s\<lparr>weapon_ammo := AList.update k v (weapon_ammo s)\<rparr>)"
proof -
  have "fst ` set (weapon_ammo s) \<subseteq> fst ` set (AList.update k v (weapon_ammo s))"
    by (auto simp: dom_update)
  then show ?thesis
    using assms by (auto simp: well_formed_def)
qed

lemma use_ammo_well_formed:
  assumes "well_formed s"
  shows "\<exists>s'. use_ammo n s = Inr s' \<and> well_formed s'"
proof -
  obtain a where a: "map_of (weapon_ammo s) (name (main_hand s)) = Some a"
    using well_formed_main(3) [OF assms] by blast
  let ?s1 = "s\<lparr>weapon_ammo := AList.update (name (main_hand s)) (a - n) (weapon_ammo s)\<rparr>"
  have wf1: "well_formed ?s1" using assms by (rule well_formed_ammo_update)
  have look: "map_of (weapon_ammo ?s1) (name (main_hand ?s1)) = Some (a - n)"
    by (simp add: update_conv')
  show ?thesis
    using a wf1 look well_formed_rotate [OF wf1]
    by (auto simp: use_ammo_def Let_def dict_get_def)
qed

lemma use_ammo_preserves_well_formed:
  assumes "well_formed s" and "use_ammo n s = Inr s'"
  shows "well_formed s'"
  using use_ammo_cases [OF assms(2)] well_formed_ammo_update [OF assms(1)] rotate_weapon_well_formed
  by auto

section \<open>Properties of the mitigation function\<close>


lemma final_armor_of_nonneg: "0 \<le> final_armor_of a p L"
  by (simp add: final_armor_of_def)

lemma mitigation_formula:
  "apply_physical_mitigation d a p L = d * (100 / (100 + final_armor_of a p L))"
  by (simp add: apply_physical_mitigation_def final_armor_of_def Let_def)

lemma final_armor_of_mono:
  assumes "p \<le> 1" and "a1 \<le> a2"
  shows "final_armor_of a1 p L \<le> final_armor_of a2 p L"
proof -
  have "max 0 (a1 - L * (0.6 + 0.4)) \<le> max 0 (a2 - L * (0.6 + 0.4))"
    using assms(2) by simp
  moreover have "0 \<le> 1 - p" using assms(1) by simp
  ultimately have "max 0 (a1 - L * (0.6 + 0.4)) * (1 - p) \<le> max 0 (a2 - L * (0.6 + 0.4)) * (1 - p)"
    by (rule mult_right_mono)
  then show ?thesis
    unfolding final_armor_of_def by (rule max.mono [OF order_refl])
qed

text \<open>
  C2 (code defect). The header comment of the program and its \<^verbatim>\<open>else\<close> branch promise the
  multiplier \<open>2 - 100 / (100 - armor)\<close> for negative armor, 1.5 at armor \<open>-100\<close>. The floors
  \<^verbatim>\<open>max(0, ...)\<close> run first, so the branch is never taken: for raw damage 100 against armor
  \<open>-100\<close> with no penetration and no lethality the function returns 100, not 150.
\<close>

theorem mitigation_negative_armor_not_amplified:
  "apply_physical_mitigation 100 (- 100) 0 0 = 100"
  by (simp add: apply_physical_mitigation_def Let_def)

text \<open>
  C4. Lethality counts once as flat penetration, the armor left after it is floored at 0,
  the percent penetration then scales the remainder, floored at 0 again, and the result is
  \<open>d * 100 / (100 + armor left)\<close>. Armor 0 leaves the damage unchanged, armor 100 without
  penetration halves it, and the multiplier (the result for damage 1) never grows when the
  target's armor grows from a non-negative value, and strictly shrinks without penetration.
\<close>

theorem mitigation_nonnegative_armor:
  assumes "0 \<le> p" and "p \<le> 1" and "0 \<le> L"
  shows "apply_physical_mitigation d a p L
           = d * (100 / (100 + max 0 (max 0 (a - 1.0 * L) * (1 - p))))
         \<and> apply_physical_mitigation d 0 p L = d
         \<and> apply_physical_mitigation d 100 0 0 = d * 0.5
         \<and> (0 \<le> a1 \<and> a1 \<le> a2 \<longrightarrow>
              apply_physical_mitigation 1 a2 p L \<le> apply_physical_mitigation 1 a1 p L)
         \<and> (0 \<le> a1 \<and> a1 < a2 \<longrightarrow>
              apply_physical_mitigation 1 a2 0 0 < apply_physical_mitigation 1 a1 0 0)"
proof -
  have formula: "apply_physical_mitigation d a p L
           = d * (100 / (100 + max 0 (max 0 (a - 1.0 * L) * (1 - p))))"
    by (simp add: mitigation_formula final_armor_of_def)
  have "max 0 (- L) = 0" using assms(3) by simp
  then have zero: "apply_physical_mitigation d 0 p L = d"
    by (simp add: mitigation_formula final_armor_of_def)
  have hundred: "apply_physical_mitigation d 100 0 0 = d * 0.5"
    by (simp add: mitigation_formula final_armor_of_def)
  have antitone: "0 \<le> a1 \<and> a1 \<le> a2 \<longrightarrow>
           apply_physical_mitigation 1 a2 p L \<le> apply_physical_mitigation 1 a1 p L"
  proof
    assume h: "0 \<le> a1 \<and> a1 \<le> a2"
    have m: "final_armor_of a1 p L \<le> final_armor_of a2 p L"
      using assms(2) h by (simp add: final_armor_of_mono)
    have "0 < 100 + final_armor_of a1 p L"
      using final_armor_of_nonneg [of a1 p L] by simp
    then have "100 / (100 + final_armor_of a2 p L) \<le> 100 / (100 + final_armor_of a1 p L)"
      using m by (simp add: frac_le)
    then show "apply_physical_mitigation 1 a2 p L \<le> apply_physical_mitigation 1 a1 p L"
      by (simp add: mitigation_formula)
  qed
  have strict: "0 \<le> a1 \<and> a1 < a2 \<longrightarrow>
           apply_physical_mitigation 1 a2 0 0 < apply_physical_mitigation 1 a1 0 0"
  proof
    assume h: "0 \<le> a1 \<and> a1 < a2"
    then have "100 / (100 + a2) < 100 / (100 + a1)"
      by (simp add: frac_less2)
    moreover have "final_armor_of a1 0 0 = a1" "final_armor_of a2 0 0 = a2"
      using h by (simp_all add: final_armor_of_def)
    ultimately show "apply_physical_mitigation 1 a2 0 0 < apply_physical_mitigation 1 a1 0 0"
      by (simp add: mitigation_formula)
  qed
  from formula zero hundred antitone strict show ?thesis by blast
qed

theorem mitigation_nonnegative_armor_witness:
  "(0::real) \<le> 0.3 \<and> (0.3::real) \<le> 1 \<and> (0::real) \<le> 10
   \<and> apply_physical_mitigation 70 150 0.3 10 = 70 * (100 / (100 + 98))
   \<and> apply_physical_mitigation 70 0 0.3 10 = 70
   \<and> apply_physical_mitigation 70 100 0 0 = 35
   \<and> apply_physical_mitigation 1 100 0.3 10 \<le> apply_physical_mitigation 1 50 0.3 10
   \<and> apply_physical_mitigation 1 100 0 0 < apply_physical_mitigation 1 50 0 0"
  using mitigation_nonnegative_armor [of "0.3" 10 70 150 50 100]
  by simp

section \<open>The attack\<close>


lemma attack_prepare_well_formed:
  assumes "well_formed s"
  shows "\<exists>s'. attack_prepare s = Inr s' \<and> well_formed s'"
proof -
  obtain s1 where "rotate_if_empty s = Inr s1" "well_formed s1"
    using rotate_if_empty_well_formed [OF assms] by blast
  then show ?thesis
    using use_ammo_well_formed [of s1 1] by (auto simp: attack_prepare_def)
qed

lemma attack_prepare_preserves_well_formed:
  assumes "well_formed s" and "attack_prepare s = Inr s'"
  shows "well_formed s'"
  using assms attack_prepare_well_formed [OF assms(1)] by auto




lemma attack_chakrams_main_hand:
  assumes "name (main_hand s) = ''Crescendum''"
  shows "attack_chakrams s total_ad = s\<lparr>chakram_stacks := max 0 (chakram_stacks s - 3)\<rparr>"
  using assms by (simp add: attack_chakrams_def Let_def)









section \<open>The ability\<close>

lemma ability_prepare_drift:
  assumes "ability_prepare s = Inr s'"
  shows "drift s s'" and "ammo_not_raised s s'"
proof -
  obtain s1 where r: "rotate_if_empty s = Inr s1" and u: "use_ammo 10 s1 = Inr s'"
    using assms by (auto simp: ability_prepare_def bind_err_eq_Inr)
  show "drift s s'"
    using rotate_if_empty_drift(1) [OF r] use_ammo_drift [OF u] by (rule drift_trans)
  have "ammo_not_raised s s1"
    using rotate_if_empty_drift(2) [OF r] by (simp add: ammo_not_raised_def list_all2_same)
  moreover have "ammo_not_raised s1 s'"
    using u by (rule use_ammo_not_raised) simp
  ultimately show "ammo_not_raised s s'" by (rule ammo_not_raised_trans)
qed

lemma ability_prepare_well_formed:
  assumes "well_formed s"
  shows "\<exists>s'. ability_prepare s = Inr s' \<and> well_formed s'"
proof -
  obtain s1 where "rotate_if_empty s = Inr s1" "well_formed s1"
    using rotate_if_empty_well_formed [OF assms] by blast
  then show ?thesis
    using use_ammo_well_formed [of s1 10] by (auto simp: ability_prepare_def)
qed

lemma ability_effects_damage_effect:
  assumes "ability_effects_damage s total_ad = Inr (raw, s')"
  shows "\<exists>st. s' = s\<lparr>stats := st\<rparr> \<and> dom (stats s) \<subseteq> dom st"
proof -
  have "s' = s \<or> (\<exists>ls. s' = s\<lparr>stats := (stats s)(''LS'' \<mapsto> ls)\<rparr>)"
    using assms
    by (auto simp: ability_effects_damage_def Let_def bind_err_eq_Inr
             split: if_splits option.splits)
  then show ?thesis
  proof
    assume "s' = s"
    then have "s' = s\<lparr>stats := stats s\<rparr> \<and> dom (stats s) \<subseteq> dom (stats s)" by simp
    then show ?thesis by blast
  next
    assume "\<exists>ls. s' = s\<lparr>stats := (stats s)(''LS'' \<mapsto> ls)\<rparr>"
    then obtain ls where "s' = s\<lparr>stats := (stats s)(''LS'' \<mapsto> ls)\<rparr>" by auto
    moreover have "dom (stats s) \<subseteq> dom ((stats s)(''LS'' \<mapsto> ls))" by auto
    ultimately show ?thesis by blast
  qed
qed

lemma ability_effects_damage_total:
  assumes "map_of WEAPONS (name (main_hand s)) = Some w" and "''LS'' \<in> dom (stats s)"
  shows "\<exists>raw s'. ability_effects_damage s total_ad = Inr (raw, s')"
proof -
  have "ability_effects_damage s total_ad \<noteq> Inl e" for e
    using assms
    by (auto simp: ability_effects_damage_def Let_def dict_get_def split: option.splits)
  then show ?thesis
    by (cases "ability_effects_damage s total_ad") auto
qed

lemma ability_chakrams_effect:
  "weapon_queue (ability_chakrams s) = weapon_queue s"
  "main_hand (ability_chakrams s) = main_hand s"
  "off_hand (ability_chakrams s) = off_hand s"
  "weapon_ammo (ability_chakrams s) = weapon_ammo s"
  "stats (ability_chakrams s) = stats s"
  "time (ability_chakrams s) = time s"
  "ability_cooldown (ability_chakrams s) = ability_cooldown s"
  "enemy_armor (ability_chakrams s) = enemy_armor s"
  "active_chakrams (ability_chakrams s) =
     (if name (main_hand s) = ''Crescendum''
      then List.insert (time s + 5) (active_chakrams s) else active_chakrams s)"
  "chakram_stacks (ability_chakrams s) =
     int (length (filter (\<lambda>t. t > time s) (active_chakrams (ability_chakrams s))))"
  by (simp_all add: ability_chakrams_def Let_def)

lemma ability_damage_shape:
  assumes "ability_damage s = Inr (d, s')"
  shows "\<exists>st. s' = ability_chakrams (s\<lparr>stats := st\<rparr>) \<and> dom (stats s) \<subseteq> dom st"
proof -
  obtain total_ad raw s1 where e: "ability_effects_damage s total_ad = Inr (raw, s1)"
    and s': "s' = ability_chakrams s1"
    using assms
    by (auto simp: ability_damage_def Let_def bind_err_eq_Inr split: prod.splits)
  from ability_effects_damage_effect [OF e] s' show ?thesis by blast
qed

lemma ability_damage_effect:
  assumes "ability_damage s = Inr (d, s')"
  shows "weapon_queue s' = weapon_queue s" and "main_hand s' = main_hand s"
    and "off_hand s' = off_hand s" and "weapon_ammo s' = weapon_ammo s"
    and "time s' = time s" and "ability_cooldown s' = ability_cooldown s"
    and "enemy_armor s' = enemy_armor s"
    and "dom (stats s) \<subseteq> dom (stats s')"
    and "active_chakrams s' =
          (if name (main_hand s) = ''Crescendum''
           then List.insert (time s + 5) (active_chakrams s) else active_chakrams s)"
    and "chakram_stacks s' = int (length (filter (\<lambda>t. t > time s') (active_chakrams s')))"
proof -
  obtain st where s': "s' = ability_chakrams (s\<lparr>stats := st\<rparr>)" and dm: "dom (stats s) \<subseteq> dom st"
    using ability_damage_shape [OF assms] by blast
  show "weapon_queue s' = weapon_queue s" "main_hand s' = main_hand s"
    "off_hand s' = off_hand s" "weapon_ammo s' = weapon_ammo s"
    "time s' = time s" "ability_cooldown s' = ability_cooldown s"
    "enemy_armor s' = enemy_armor s"
    using s' by (simp_all add: ability_chakrams_effect)
  show "dom (stats s) \<subseteq> dom (stats s')" using s' dm by (simp add: ability_chakrams_effect)
  show "active_chakrams s' =
          (if name (main_hand s) = ''Crescendum''
           then List.insert (time s + 5) (active_chakrams s) else active_chakrams s)"
    using s' by (simp add: ability_chakrams_effect)
  show "chakram_stacks s' = int (length (filter (\<lambda>t. t > time s') (active_chakrams s')))"
    using s' by (simp add: ability_chakrams_effect)
qed

lemma ability_damage_total:
  assumes "well_formed s"
  shows "\<exists>d s'. ability_damage s = Inr (d, s') \<and> well_formed s'"
proof -
  obtain b where b: "stats s ''BonusAD'' = Some b"
    using assms by (auto simp: well_formed_def)
  have "map_of WEAPONS (name (main_hand s)) = Some (main_hand s)"
    using assms well_formed_main(1) [OF assms] by (simp add: well_formed_def)
  moreover have "''LS'' \<in> dom (stats s)" using assms by (auto simp: well_formed_def)
  ultimately obtain raw s1 where
    e: "ability_effects_damage s (BASE_AD_LEVEL18 + b + 68) = Inr (raw, s1)"
    using ability_effects_damage_total by blast
  then have r: "ability_damage s = Inr (apply_physical_mitigation raw
        (enemy_armor (ability_chakrams s1))
        (dict_get_default (stats (ability_chakrams s1)) ''ArmorPen'' 0.0)
        (dict_get_default (stats (ability_chakrams s1)) ''Lethality'' 0.0), ability_chakrams s1)"
    using b by (simp add: ability_damage_def Let_def dict_get_def)
  note f = ability_damage_effect [OF r]
  have "well_formed (ability_chakrams s1)"
    using assms f by (simp add: well_formed_def) blast
  then show ?thesis using r by blast
qed

lemma simulate_ability_split:
  assumes "simulate_ability s = Inr (d, s')"
  shows "\<exists>s1. ability_prepare s = Inr s1 \<and> ability_damage s1 = Inr (d, s')"
  using assms by (simp add: simulate_ability_def bind_err_eq_Inr)

lemma simulate_ability_well_formed:
  assumes "well_formed s"
  shows "\<exists>d s'. simulate_ability s = Inr (d, s') \<and> well_formed s'"
proof -
  obtain s1 where p: "ability_prepare s = Inr s1" and wf1: "well_formed s1"
    using ability_prepare_well_formed [OF assms] by blast
  obtain d s' where "ability_damage s1 = Inr (d, s')" "well_formed s'"
    using ability_damage_total [OF wf1] by blast
  then show ?thesis using p by (auto simp: simulate_ability_def)
qed

section \<open>The chakram counter along a run\<close>













lemma init_effect:
  assumes "init items ea eh rnd = Inr s"
  shows "time s = 0" and "ability_cooldown s = 0" and "chakram_stacks s = 0"
    and "active_chakrams s = []"
    and "weapon_ammo s = [(''Calibrum'', 50), (''Severum'', 50), (''Gravitum'', 50),
                          (''Infernum'', 50), (''Crescendum'', 50)]"
    and "weapon_queue s = [''Calibrum'', ''Severum'', ''Gravitum'', ''Infernum'', ''Crescendum'']"
    and "map_of WEAPONS ''Calibrum'' = Some (main_hand s)"
    and "map_of WEAPONS ''Severum'' = Some (off_hand s)"
    and "calculate_base_stats (item_stats_of items) items = Inr (stats s)"
    and "enemy_armor s = ea"
  using assms
  by (auto simp: init_def Let_def bind_err_eq_Inr dict_get_eq_Inr WEAPONS_def)



section \<open>The aggregation loop is a fold of effects\<close>

lemma add_numeric_stats:
  "acc_stats (add_numeric a k v) = (acc_stats a)(k \<mapsto> dict_get_default (acc_stats a) k 0 + v)"
  "has_infinity_edge (add_numeric a k v) = has_infinity_edge a"
  "bonus_ad (add_numeric a k v) = bonus_ad a"
  by (simp_all add: add_numeric_def)









section \<open>The snapshot keeps its entries\<close>








section \<open>The example states\<close>

lemma calculate_base_stats_empty:
  "calculate_base_stats [] [] =
     Inr (initial_stats(''BonusAD'' \<mapsto> 0, ''AD'' \<mapsto> BASE_AD_LEVEL18 + 0,
                        ''AD'' \<mapsto> BASE_AD_LEVEL18 + 0 + 68, ''Crit'' \<mapsto> 0))"
  by (simp add: calculate_base_stats_def finalize_stats_def Let_def dict_get_def initial_stats_def)

lemma init_fresh: "init [] 250 3500 (\<lambda>n. 0.5) = Inr fresh_simulator"
proof -
  have "\<exists>s. init [] 250 3500 (\<lambda>n. 0.5) = Inr s"
    by (simp add: init_def Let_def dict_get_def WEAPONS_def item_stats_of_def
          calculate_base_stats_empty)
  then show ?thesis by (auto simp: fresh_simulator_def)
qed


lemma fresh_stats:
  "stats fresh_simulator ''BonusAD'' = Some 0"
  "stats fresh_simulator ''Crit'' = Some 0"
  "stats fresh_simulator ''CritDmg'' = Some 1.75"
  "stats fresh_simulator ''LS'' = Some 0"
  "stats fresh_simulator ''AS'' = Some 0.64"
  "stats fresh_simulator ''ArmorPen'' = Some 0"
  "stats fresh_simulator ''Lethality'' = Some 0"
proof -
  have "calculate_base_stats (item_stats_of []) [] = Inr (stats fresh_simulator)"
    using init_effect(9) [OF init_fresh] .
  then have "stats fresh_simulator =
     initial_stats(''BonusAD'' \<mapsto> 0, ''AD'' \<mapsto> BASE_AD_LEVEL18 + 0,
                   ''AD'' \<mapsto> BASE_AD_LEVEL18 + 0 + 68, ''Crit'' \<mapsto> 0)"
    by (simp add: item_stats_of_def calculate_base_stats_empty)
  then show "stats fresh_simulator ''BonusAD'' = Some 0"
    "stats fresh_simulator ''Crit'' = Some 0"
    "stats fresh_simulator ''CritDmg'' = Some 1.75"
    "stats fresh_simulator ''LS'' = Some 0"
    "stats fresh_simulator ''AS'' = Some 0.64"
    "stats fresh_simulator ''ArmorPen'' = Some 0"
    "stats fresh_simulator ''Lethality'' = Some 0"
    by (simp_all add: initial_stats_def constant_defs)
qed

lemma fresh_fields:
  "enemy_armor fresh_simulator = 250"
  "random_values fresh_simulator = (\<lambda>n. 0.5)"
  "random_drawn fresh_simulator = 0"
  "active_chakrams fresh_simulator = []"
  "time fresh_simulator = 0"
  "weapon_ammo fresh_simulator = [(''Calibrum'', 50), (''Severum'', 50), (''Gravitum'', 50),
                                  (''Infernum'', 50), (''Crescendum'', 50)]"
  "weapon_queue fresh_simulator = [''Calibrum'', ''Severum'', ''Gravitum'', ''Infernum'', ''Crescendum'']"
proof -
  have "\<exists>s. init [] 250 3500 (\<lambda>n. 0.5) = Inr s \<and> enemy_armor s = 250
      \<and> random_values s = (\<lambda>n. 0.5) \<and> random_drawn s = 0"
    by (simp add: init_def Let_def dict_get_def WEAPONS_def item_stats_of_def
          calculate_base_stats_empty)
  then show "enemy_armor fresh_simulator = 250"
    "random_values fresh_simulator = (\<lambda>n. 0.5)"
    "random_drawn fresh_simulator = 0"
    by (auto simp: fresh_simulator_def)
  show "active_chakrams fresh_simulator = []" "time fresh_simulator = 0"
    "weapon_ammo fresh_simulator = [(''Calibrum'', 50), (''Severum'', 50), (''Gravitum'', 50),
                                  (''Infernum'', 50), (''Crescendum'', 50)]"
    "weapon_queue fresh_simulator = [''Calibrum'', ''Severum'', ''Gravitum'', ''Infernum'', ''Crescendum'']"
    using init_effect [OF init_fresh] by simp_all
qed


section \<open>The loop of \<open>calculate_dps\<close>\<close>

lemma dps_loop_reaches:
  assumes "dps_loop duration total_damage s = Some res"
  shows "\<forall>s0. loop_head duration s0 (total_damage, s) \<longrightarrow>
         (case res of Inl e \<Rightarrow> True
          | Inr r \<Rightarrow> loop_head duration s0 r \<and> \<not> time (snd r) < duration)"
proof (rule dps_loop.raw_induct
    [where P = "\<lambda>d t s res. \<forall>s0. loop_head d s0 (t, s) \<longrightarrow>
         (case res of Inl e \<Rightarrow> True | Inr r \<Rightarrow> loop_head d s0 r \<and> \<not> time (snd r) < d)",
     OF _ assms])
  fix loop :: "real \<Rightarrow> real \<Rightarrow> simulator \<Rightarrow> (error + real \<times> simulator) option"
  fix d t :: real and s :: simulator and res :: "error + real \<times> simulator"
  assume IH: "\<And>d t s res. loop d t s = Some res \<Longrightarrow>
      \<forall>s0. loop_head d s0 (t, s) \<longrightarrow>
         (case res of Inl e \<Rightarrow> True | Inr r \<Rightarrow> loop_head d s0 r \<and> \<not> time (snd r) < d)"
  assume body: "(if time s < d
      then case dps_iteration t s of Inl e \<Rightarrow> Some (Inl e)
           | Inr r \<Rightarrow> loop d (fst r) (snd r)
      else Some (Inr (t, s))) = Some res"
  show "\<forall>s0. loop_head d s0 (t, s) \<longrightarrow>
         (case res of Inl e \<Rightarrow> True | Inr r \<Rightarrow> loop_head d s0 r \<and> \<not> time (snd r) < d)"
  proof (cases "time s < d")
    case False
    then show ?thesis using body by auto
  next
    case True
    show ?thesis
    proof (cases "dps_iteration t s")
      case (Inl e)
      then have "res = Inl e" using True body by simp
      then show ?thesis by simp
    next
      case (Inr r)
      then have rec: "loop d (fst r) (snd r) = Some res"
        using True body by simp
      show ?thesis
      proof (intro allI impI)
        fix s0
        assume lh: "loop_head d s0 (t, s)"
        have "loop_head d s0 r"
          using lh True Inr by (rule loop_pass)
        then show "case res of Inl e \<Rightarrow> True
          | Inr r \<Rightarrow> loop_head d s0 r \<and> \<not> time (snd r) < d"
          using IH [OF rec] by simp
      qed
    qed
  qed
qed

lemma calculate_dps_observed:
  assumes "calculate_dps duration s0 = Some (Inr (dps, s))"
  shows "observed duration s0 s"
proof -
  obtain r where l: "dps_loop duration 0 s0 = Some (Inr r)"
    and f: "dps_finish duration r = Inr (dps, s)"
    using assms by (auto simp: calculate_dps_def split: option.splits sum.splits)
  have "loop_head duration s0 r \<and> \<not> time (snd r) < duration"
    using dps_loop_reaches [OF l] loop_start [of duration s0] by auto
  then show ?thesis
    using f at_return [of duration s0 "fst r" "snd r" dps s] by simp
qed



text \<open>
  C7. On a simulator fresh from its constructor, \<^verbatim>\<open>calculate_dps(duration)\<close> with a duration
  of 0 or below returns 0 and leaves the simulator as it is: the loop is not entered, no
  weapon is spent, and the division is guarded by \<^verbatim>\<open>duration > 0\<close>.
\<close>

theorem zero_duration_returns_zero:
  assumes "init items enemy_armor_arg enemy_health_arg rnd = Inr s0" and "duration \<le> 0"
  shows "calculate_dps duration s0 = Some (Inr (0, s0))"
proof -
  note e = init_effect [OF assms(1)]
  have l: "dps_loop duration 0 s0 = Some (Inr (0, s0))"
    using e(1) assms(2) by (subst dps_loop.simps) simp
  have "\<not> all_ammo_spent s0" using e(5) by (simp add: all_ammo_spent_def)
  then have "dps_finish duration (0, s0) = Inr (0, s0)"
    using assms(2) by (simp add: dps_finish_def)
  then show ?thesis using l by (simp add: calculate_dps_def)
qed

theorem zero_duration_returns_zero_witness:
  "init [] 250 3500 (\<lambda>n. 0.5) = Inr fresh_simulator \<and> (0::real) \<le> 0 \<and> (- 5::real) \<le> 0
   \<and> calculate_dps 0 fresh_simulator = Some (Inr (0, fresh_simulator))
   \<and> calculate_dps (- 5) fresh_simulator = Some (Inr (0, fresh_simulator))"
  using init_fresh zero_duration_returns_zero [OF init_fresh, of 0]
    zero_duration_returns_zero [OF init_fresh, of "- 5"]
  by simp

section \<open>Evaluating the operations on the example states\<close>

lemma WEAPONS_entries:
  "map_of WEAPONS ''Calibrum'' = Some
     \<lparr>name = ''Calibrum'', moonlight = 50, base_damage_mod = (1.0, 0.2),
      on_hit_effect = [(''range'', Num 650), (''mark'', Bool True)],
      ability_effect = [''execute'' \<mapsto> 0.10]\<rparr>"
  "map_of WEAPONS ''Severum'' = Some
     \<lparr>name = ''Severum'', moonlight = 50, base_damage_mod = (0.9, 0.0),
      on_hit_effect = [(''heal'', Num 0.03), (''shield_convert'', Num 0.06)],
      ability_effect = [''lifesteal_boost'' \<mapsto> 0.25]\<rparr>"
  "map_of WEAPONS ''Gravitum'' = Some
     \<lparr>name = ''Gravitum'', moonlight = 50, base_damage_mod = (1.1, 0.0),
      on_hit_effect = [(''slow'', Num 0.3)],
      ability_effect = [''root'' \<mapsto> 1.0]\<rparr>"
  "map_of WEAPONS ''Infernum'' = Some
     \<lparr>name = ''Infernum'', moonlight = 50, base_damage_mod = (0.85, 0.15),
      on_hit_effect = [(''aoe'', Num 0.75)],
      ability_effect = [''splash'' \<mapsto> 0.4]\<rparr>"
  "map_of WEAPONS ''Crescendum'' = Some
     \<lparr>name = ''Crescendum'', moonlight = 50, base_damage_mod = (0.5, 0.02),
      on_hit_effect = [(''chakram_gen'', Num 1)],
      ability_effect = [''chakram_amp'' \<mapsto> 0.1]\<rparr>"
  by (simp_all add: WEAPONS_def)

lemmas simulator_eval =
  simulate_attack_def attack_prepare_def attack_damage_def attack_on_hit_def
  attack_chakrams_def simulate_ability_def ability_prepare_def ability_damage_def
  ability_effects_damage_def ability_chakrams_def rotate_if_empty_def use_ammo_def
  rotate_weapon_def random_random_def mid_run_state_def apply_physical_mitigation_def
  py_int_def dict_get_def dict_get_default_def Let_def
  fresh_fields fresh_stats WEAPONS_entries BASE_AD_LEVEL18_def BASE_AS_def

text \<open>
  C1 (code defect). With Crescendum in the main hand the attack computes
  \<^verbatim>\<open>total_ad * (0.1385 * self.chakram_stacks)\<close>, comments it as \<^verbatim>\<open>Bonus damage only\<close>, and
  stores it in \<^verbatim>\<open>base_damage\<close>, which nothing reads afterwards; \<^verbatim>\<open>damage\<close> is returned
  without it. For the empty build against armor 250, with Crescendum in front and no
  critical strike, the attack returns \<open>162.1 * 0.5 * 100 / 350 = 1621 / 70\<close> with 10 stacks
  as with none. The counter itself goes from 10 to 7 and stays at 0, as the claim says.
\<close>

theorem crescendum_attack_without_stack_bonus:
  "map_sum id (\<lambda>r. (fst r, chakram_stacks (snd r)))
     (simulate_attack
        (mid_run_state [''Crescendum'', ''Calibrum'', ''Severum'', ''Gravitum'', ''Infernum'']
           [(''Calibrum'', 0), (''Severum'', 0), (''Gravitum'', 0), (''Infernum'', 0),
            (''Crescendum'', 50)] 10 200))
     = Inr (1621 / 70, 7)
   \<and> map_sum id (\<lambda>r. (fst r, chakram_stacks (snd r)))
     (simulate_attack
        (mid_run_state [''Crescendum'', ''Calibrum'', ''Severum'', ''Gravitum'', ''Infernum'']
           [(''Calibrum'', 0), (''Severum'', 0), (''Gravitum'', 0), (''Infernum'', 0),
            (''Crescendum'', 50)] 0 200))
     = Inr (1621 / 70, 0)"
  by (simp add: simulator_eval)

section \<open>The ability and the chakram counter\<close>

lemma rotate_if_empty_clock:
  assumes "rotate_if_empty s = Inr s'"
  shows "time s' = time s \<or> time s' = time s + 1"
  using rotate_if_empty_cases [OF assms] rotate_weapon_effect(8) by auto

lemma use_ammo_clock:
  assumes "use_ammo n s = Inr s'"
  shows "time s' = time s \<or> time s' = time s + 1"
proof -
  obtain a where
    c: "s' = s\<lparr>weapon_ammo := AList.update (name (main_hand s)) (a - n) (weapon_ammo s)\<rparr>
        \<or> rotate_weapon (s\<lparr>weapon_ammo := AList.update (name (main_hand s)) (a - n) (weapon_ammo s)\<rparr>)
             = Inr s'"
    using use_ammo_cases [OF assms] by blast
  then show ?thesis
  proof
    assume "s' = s\<lparr>weapon_ammo := AList.update (name (main_hand s)) (a - n) (weapon_ammo s)\<rparr>"
    then show ?thesis by simp
  next
    assume "rotate_weapon (s\<lparr>weapon_ammo := AList.update (name (main_hand s)) (a - n) (weapon_ammo s)\<rparr>)
             = Inr s'"
    from rotate_weapon_effect(8) [OF this] show ?thesis by simp
  qed
qed

text \<open>
  C9. Every call of \<^verbatim>\<open>simulate_ability\<close> that returns, whatever weapon is in the main hand
  and whatever the counter held before: the set of pending expiry times is the one from
  before the call, with the clock plus 5 added when the weapon that casts is Crescendum and
  nothing added otherwise; the clock has moved by the rotations of the call only; and
  \<^verbatim>\<open>chakram_stacks\<close> is left holding the number of pending times later than the clock. So
  when the caster is not Crescendum the counter becomes the number of entries pending from
  before, and 0 when none was pending: stacks gathered by attacks with Crescendum in the
  off hand are gone.
\<close>

theorem ability_overwrites_stacks:
  assumes "simulate_ability s = Inr (d, s')"
  shows "active_chakrams s' =
           (if name (main_hand s') = ''Crescendum''
            then List.insert (time s' + 5) (active_chakrams s) else active_chakrams s)
         \<and> (time s' = time s \<or> time s' = time s + 1 \<or> time s' = time s + 2)
         \<and> chakram_stacks s' = int (length (filter (\<lambda>t. t > time s') (active_chakrams s')))
         \<and> (name (main_hand s') \<noteq> ''Crescendum'' \<longrightarrow>
              chakram_stacks s' = int (length (filter (\<lambda>t. t > time s') (active_chakrams s))))
         \<and> (name (main_hand s') \<noteq> ''Crescendum''
              \<and> list_all (\<lambda>t. t \<le> time s) (active_chakrams s) \<longrightarrow> chakram_stacks s' = 0)"
proof -
  obtain s2 where p: "ability_prepare s = Inr s2" and dmg: "ability_damage s2 = Inr (d, s')"
    using simulate_ability_split [OF assms] by blast
  obtain s1 where r: "rotate_if_empty s = Inr s1" and u: "use_ammo 10 s1 = Inr s2"
    using p by (auto simp: ability_prepare_def bind_err_eq_Inr)
  note dr = ability_prepare_drift(1) [OF p]
  note e = ability_damage_effect [OF dmg]
  have act2: "active_chakrams s2 = active_chakrams s" using dr by (simp add: drift_def)
  have frame: "active_chakrams s' =
           (if name (main_hand s') = ''Crescendum''
            then List.insert (time s' + 5) (active_chakrams s) else active_chakrams s)"
    using e(2,5,9) act2 by simp
  have clock: "time s' = time s \<or> time s' = time s + 1 \<or> time s' = time s + 2"
    using rotate_if_empty_clock [OF r] use_ammo_clock [OF u] e(5) by auto
  have count: "chakram_stacks s' = int (length (filter (\<lambda>t. t > time s') (active_chakrams s')))"
    by (rule e(10))
  have other: "name (main_hand s') \<noteq> ''Crescendum'' \<longrightarrow>
              chakram_stacks s' = int (length (filter (\<lambda>t. t > time s') (active_chakrams s)))"
    using count frame by simp
  have none: "chakram_stacks s' = 0"
    if o: "name (main_hand s') \<noteq> ''Crescendum''"
      and past: "list_all (\<lambda>t. t \<le> time s) (active_chakrams s)"
  proof -
    have "time s \<le> time s'" using clock by auto
    then have "filter (\<lambda>t. t > time s') (active_chakrams s) = []"
      using past by (auto simp: filter_empty_conv list_all_iff)
    then show ?thesis using other o by simp
  qed
  from frame clock count other none show ?thesis by blast
qed

lemma infernum_ability_eval:
  "map_sum id (\<lambda>r. (name (main_hand (snd r)), chakram_stacks (snd r), active_chakrams (snd r),
                      time (snd r)))
     (simulate_ability
        (mid_run_state [''Infernum'', ''Crescendum'', ''Calibrum'', ''Severum'', ''Gravitum'']
           [(''Calibrum'', 0), (''Severum'', 0), (''Gravitum'', 0), (''Infernum'', 30),
            (''Crescendum'', 50)] 7 200
         \<lparr>active_chakrams := [203, 199]\<rparr>))
     = Inr (''Infernum'', 1, [203, 199], 200)"
  by (simp add: simulator_eval)

lemma infernum_ability_eval_none:
  "map_sum id (\<lambda>r. (name (main_hand (snd r)), chakram_stacks (snd r)))
     (simulate_ability
        (mid_run_state [''Infernum'', ''Crescendum'', ''Calibrum'', ''Severum'', ''Gravitum'']
           [(''Calibrum'', 0), (''Severum'', 0), (''Gravitum'', 0), (''Infernum'', 30),
            (''Crescendum'', 50)] 7 200
         \<lparr>active_chakrams := [199]\<rparr>))
     = Inr (''Infernum'', 0)"
  by (simp add: simulator_eval)

theorem ability_overwrites_stacks_witness:
  "simulate_ability
     (mid_run_state [''Infernum'', ''Crescendum'', ''Calibrum'', ''Severum'', ''Gravitum'']
        [(''Calibrum'', 0), (''Severum'', 0), (''Gravitum'', 0), (''Infernum'', 30),
         (''Crescendum'', 50)] 7 200 \<lparr>active_chakrams := [203, 199]\<rparr>)
     = Inr (projr (simulate_ability
        (mid_run_state [''Infernum'', ''Crescendum'', ''Calibrum'', ''Severum'', ''Gravitum'']
           [(''Calibrum'', 0), (''Severum'', 0), (''Gravitum'', 0), (''Infernum'', 30),
            (''Crescendum'', 50)] 7 200 \<lparr>active_chakrams := [203, 199]\<rparr>)))
   \<and> chakram_stacks
        (mid_run_state [''Infernum'', ''Crescendum'', ''Calibrum'', ''Severum'', ''Gravitum'']
           [(''Calibrum'', 0), (''Severum'', 0), (''Gravitum'', 0), (''Infernum'', 30),
            (''Crescendum'', 50)] 7 200 \<lparr>active_chakrams := [203, 199]\<rparr>) = 7
   \<and> name (main_hand (snd (projr (simulate_ability
        (mid_run_state [''Infernum'', ''Crescendum'', ''Calibrum'', ''Severum'', ''Gravitum'']
           [(''Calibrum'', 0), (''Severum'', 0), (''Gravitum'', 0), (''Infernum'', 30),
            (''Crescendum'', 50)] 7 200 \<lparr>active_chakrams := [203, 199]\<rparr>))))) = ''Infernum''
   \<and> active_chakrams (snd (projr (simulate_ability
        (mid_run_state [''Infernum'', ''Crescendum'', ''Calibrum'', ''Severum'', ''Gravitum'']
           [(''Calibrum'', 0), (''Severum'', 0), (''Gravitum'', 0), (''Infernum'', 30),
            (''Crescendum'', 50)] 7 200 \<lparr>active_chakrams := [203, 199]\<rparr>)))) = [203, 199]
   \<and> time (snd (projr (simulate_ability
        (mid_run_state [''Infernum'', ''Crescendum'', ''Calibrum'', ''Severum'', ''Gravitum'']
           [(''Calibrum'', 0), (''Severum'', 0), (''Gravitum'', 0), (''Infernum'', 30),
            (''Crescendum'', 50)] 7 200 \<lparr>active_chakrams := [203, 199]\<rparr>)))) = 200
   \<and> chakram_stacks (snd (projr (simulate_ability
        (mid_run_state [''Infernum'', ''Crescendum'', ''Calibrum'', ''Severum'', ''Gravitum'']
           [(''Calibrum'', 0), (''Severum'', 0), (''Gravitum'', 0), (''Infernum'', 30),
            (''Crescendum'', 50)] 7 200 \<lparr>active_chakrams := [203, 199]\<rparr>)))) = 1
   \<and> simulate_ability
     (mid_run_state [''Infernum'', ''Crescendum'', ''Calibrum'', ''Severum'', ''Gravitum'']
        [(''Calibrum'', 0), (''Severum'', 0), (''Gravitum'', 0), (''Infernum'', 30),
         (''Crescendum'', 50)] 7 200 \<lparr>active_chakrams := [199]\<rparr>)
     = Inr (projr (simulate_ability
        (mid_run_state [''Infernum'', ''Crescendum'', ''Calibrum'', ''Severum'', ''Gravitum'']
           [(''Calibrum'', 0), (''Severum'', 0), (''Gravitum'', 0), (''Infernum'', 30),
            (''Crescendum'', 50)] 7 200 \<lparr>active_chakrams := [199]\<rparr>)))
   \<and> list_all (\<lambda>t. t \<le> time
        (mid_run_state [''Infernum'', ''Crescendum'', ''Calibrum'', ''Severum'', ''Gravitum'']
           [(''Calibrum'', 0), (''Severum'', 0), (''Gravitum'', 0), (''Infernum'', 30),
            (''Crescendum'', 50)] 7 200 \<lparr>active_chakrams := [199]\<rparr>))
        (active_chakrams
          (mid_run_state [''Infernum'', ''Crescendum'', ''Calibrum'', ''Severum'', ''Gravitum'']
           [(''Calibrum'', 0), (''Severum'', 0), (''Gravitum'', 0), (''Infernum'', 30),
            (''Crescendum'', 50)] 7 200 \<lparr>active_chakrams := [199]\<rparr>))
   \<and> chakram_stacks (snd (projr (simulate_ability
        (mid_run_state [''Infernum'', ''Crescendum'', ''Calibrum'', ''Severum'', ''Gravitum'']
           [(''Calibrum'', 0), (''Severum'', 0), (''Gravitum'', 0), (''Infernum'', 30),
            (''Crescendum'', 50)] 7 200 \<lparr>active_chakrams := [199]\<rparr>)))) = 0"
proof -
  let ?X = "mid_run_state [''Infernum'', ''Crescendum'', ''Calibrum'', ''Severum'', ''Gravitum'']
        [(''Calibrum'', 0), (''Severum'', 0), (''Gravitum'', 0), (''Infernum'', 30),
         (''Crescendum'', 50)] 7 200 \<lparr>active_chakrams := [203, 199]\<rparr>"
  let ?Y = "mid_run_state [''Infernum'', ''Crescendum'', ''Calibrum'', ''Severum'', ''Gravitum'']
        [(''Calibrum'', 0), (''Severum'', 0), (''Gravitum'', 0), (''Infernum'', 30),
         (''Crescendum'', 50)] 7 200 \<lparr>active_chakrams := [199]\<rparr>"
  obtain d s' where r: "simulate_ability ?X = Inr (d, s')"
    and n: "name (main_hand s') = ''Infernum''"
    using infernum_ability_eval by (cases "simulate_ability ?X") auto
  obtain e t' where q: "simulate_ability ?Y = Inr (e, t')"
    and m: "name (main_hand t') = ''Infernum''"
    using infernum_ability_eval_none by (cases "simulate_ability ?Y") auto
  have preX: "chakram_stacks ?X = 7" "active_chakrams ?X = [203, 199]" "time ?X = 200"
    by (simp_all add: mid_run_state_def fresh_fields)
  have preY: "list_all (\<lambda>t. t \<le> time ?Y) (active_chakrams ?Y)"
    by (simp add: mid_run_state_def fresh_fields)
  have otherX: "name (main_hand s') \<noteq> ''Crescendum''" using n by simp
  have otherY: "name (main_hand t') \<noteq> ''Crescendum''" using m by simp
  note tx = ability_overwrites_stacks [OF r]
  note ty = ability_overwrites_stacks [OF q]
  have actX: "active_chakrams s' = [203, 199]"
    using tx otherX preX(2) by simp
  have timeX: "time s' = 200"
    using infernum_ability_eval r by simp
  have "chakram_stacks s' = int (length (filter (\<lambda>t. t > time s') (active_chakrams ?X)))"
    using tx otherX by blast
  then have cntX: "chakram_stacks s' = 1"
    using timeX preX(2) by simp
  have cntY: "chakram_stacks t' = 0"
    using ty otherY preY by blast
  show ?thesis
    using r q n actX timeX cntX cntY preX(1) preY by simp
qed

section \<open>Properties of the stat aggregation\<close>

lemmas aggregation_eval =
  calculate_base_stats_def aggregate_item_def aggregate_stat_def add_numeric_def
  finalize_stats_def dict_get_def dict_get_default_def initial_stats_def Let_def constant_defs

lemmas catalog_eval = item_stats_of_def ITEMS_def

text \<open>
  C3 (code defect). The comments \<^verbatim>\<open>Only highest value applies\<close> and \<^verbatim>\<open>Pick highest % Armor Pen\<close>
  and the sibling branches, which all end in \<^verbatim>\<open>continue\<close>, say that percent armor
  penetration is the maximum over the items. The branch lacks the \<^verbatim>\<open>continue\<close>: under the
  spelling \<^verbatim>\<open>ArmorPen\<close> the value is added again to the very entry that holds the maximum.
  Two items of 0.15 each give 0.45; under the spelling \<^verbatim>\<open>Armor Pen\<close> the addition goes to
  another entry and the result is 0.15. The catalog's Black Cleaver alone (0.30) gives 0.60.
\<close>

theorem armor_pen_added_after_max:
  "map_sum id (\<lambda>st. st ''ArmorPen'')
     (calculate_base_stats
        [[(''ArmorPen'', Num 0.15), (''name'', Str ''First'')],
         [(''ArmorPen'', Num 0.15), (''name'', Str ''Second'')]]
        [''First'', ''Second''])
     = Inr (Some 0.45)
   \<and> map_sum id (\<lambda>st. st ''ArmorPen'')
     (calculate_base_stats
        [[(''Armor Pen'', Num 0.15), (''name'', Str ''First'')],
         [(''Armor Pen'', Num 0.15), (''name'', Str ''Second'')]]
        [''First'', ''Second''])
     = Inr (Some 0.15)
   \<and> map_sum id (\<lambda>st. st ''ArmorPen'')
     (calculate_base_stats (item_stats_of [''Black Cleaver'']) [''Black Cleaver''])
     = Inr (Some 0.6)"
  by (simp add: aggregation_eval catalog_eval)

text \<open>
  The same defect makes the snapshot depend on the order of the items: the two orders of
  one legal build below give percent armor penetration 1.0 and 1.1.
\<close>

theorem aggregation_depends_on_item_order:
  "mset [''Black Cleaver'', ''Lord Dominik's Regards'', ''Muramana'', ''Axiom Arc'', ''Bloodthirster'']
     = mset [''Lord Dominik's Regards'', ''Black Cleaver'', ''Muramana'', ''Axiom Arc'', ''Bloodthirster'']
   \<and> map_sum id (\<lambda>st. st ''ArmorPen'')
        (calculate_base_stats
           (item_stats_of [''Black Cleaver'', ''Lord Dominik's Regards'', ''Muramana'',
                           ''Axiom Arc'', ''Bloodthirster''])
           [''Black Cleaver'', ''Lord Dominik's Regards'', ''Muramana'', ''Axiom Arc'',
            ''Bloodthirster''])
        = Inr (Some 1.0)
   \<and> map_sum id (\<lambda>st. st ''ArmorPen'')
        (calculate_base_stats
           (item_stats_of [''Lord Dominik's Regards'', ''Black Cleaver'', ''Muramana'',
                           ''Axiom Arc'', ''Bloodthirster''])
           [''Lord Dominik's Regards'', ''Black Cleaver'', ''Muramana'', ''Axiom Arc'',
            ''Bloodthirster''])
        = Inr (Some 1.1)"
  by (simp add: aggregation_eval catalog_eval)

section \<open>Properties of the search driver\<close>

lemma optimize_sorted: "sorted (map ranking_key (optimize_aphelios_build completed))"
  by (simp add: optimize_aphelios_build_def)

lemma optimize_mset: "mset (optimize_aphelios_build completed) = mset (concat completed)"
  by (simp add: optimize_aphelios_build_def)

text \<open>
  C8. In the list that the driver returns, every result has a total score at least that of
  its successor, and where the two scores are equal, a DPS at least that of its successor.
\<close>

theorem ranking_sorted_descending:
  "\<forall>i. Suc i < length (optimize_aphelios_build completed) \<longrightarrow>
       result_score (optimize_aphelios_build completed ! Suc i)
         \<le> result_score (optimize_aphelios_build completed ! i)
     \<and> (result_score (optimize_aphelios_build completed ! i)
           = result_score (optimize_aphelios_build completed ! Suc i) \<longrightarrow>
          result_dps (optimize_aphelios_build completed ! Suc i)
            \<le> result_dps (optimize_aphelios_build completed ! i))"
proof (intro allI impI)
  fix i
  let ?xs = "optimize_aphelios_build completed"
  assume i: "Suc i < length ?xs"
  have "map ranking_key ?xs ! i \<le> map ranking_key ?xs ! Suc i"
    using optimize_sorted [of completed] i by (simp add: sorted_iff_nth_Suc del: nth_map)
  then have "ranking_key (?xs ! i) \<le> ranking_key (?xs ! Suc i)"
    using i by simp
  then show "result_score (?xs ! Suc i) \<le> result_score (?xs ! i)
     \<and> (result_score (?xs ! i) = result_score (?xs ! Suc i) \<longrightarrow>
          result_dps (?xs ! Suc i) \<le> result_dps (?xs ! i))"
    by (auto simp: ranking_key_def less_eq_prod_def)
qed

theorem ranking_sorted_descending_witness:
  "optimize_aphelios_build
     [[([''a''], 10, 2, 0, 0, 0, 0, 0, 0), ([''b''], 30, 1, 0, 0, 0, 0, 0, 0)],
      [([''c''], 10, 5, 0, 0, 0, 0, 0, 0)]]
     = [([''b''], 30, 1, 0, 0, 0, 0, 0, 0), ([''c''], 10, 5, 0, 0, 0, 0, 0, 0),
        ([''a''], 10, 2, 0, 0, 0, 0, 0, 0)]
   \<and> Suc 1 < length (optimize_aphelios_build
       [[([''a''], 10, 2, 0, 0, 0, 0, 0, 0), ([''b''], 30, 1, 0, 0, 0, 0, 0, 0)],
        [([''c''], 10, 5, 0, 0, 0, 0, 0, 0)]])
   \<and> result_score (optimize_aphelios_build
       [[([''a''], 10, 2, 0, 0, 0, 0, 0, 0), ([''b''], 30, 1, 0, 0, 0, 0, 0, 0)],
        [([''c''], 10, 5, 0, 0, 0, 0, 0, 0)]] ! 1)
       = result_score (optimize_aphelios_build
       [[([''a''], 10, 2, 0, 0, 0, 0, 0, 0), ([''b''], 30, 1, 0, 0, 0, 0, 0, 0)],
        [([''c''], 10, 5, 0, 0, 0, 0, 0, 0)]] ! Suc 1)
   \<and> result_dps (optimize_aphelios_build
       [[([''a''], 10, 2, 0, 0, 0, 0, 0, 0), ([''b''], 30, 1, 0, 0, 0, 0, 0, 0)],
        [([''c''], 10, 5, 0, 0, 0, 0, 0, 0)]] ! Suc 1)
       \<le> result_dps (optimize_aphelios_build
       [[([''a''], 10, 2, 0, 0, 0, 0, 0, 0), ([''b''], 30, 1, 0, 0, 0, 0, 0, 0)],
        [([''c''], 10, 5, 0, 0, 0, 0, 0, 0)]] ! 1)"
  using ranking_sorted_descending
    [of "[[([''a''], 10, 2, 0, 0, 0, 0, 0, 0), ([''b''], 30, 1, 0, 0, 0, 0, 0, 0)],
          [([''c''], 10, 5, 0, 0, 0, 0, 0, 0)]]"]
  by (simp add: optimize_aphelios_build_def ranking_key_def result_score_def result_dps_def)

end
